theory Spec2Isabelle
  imports Complex_Main
begin

section \<open>Errors, tensors and configuration\<close>

text \<open>
  The policy of \<^verbatim>\<open>modeling_dit.py\<close> is embedded over the real numbers. Every
  \<^verbatim>\<open>raise\<close> and \<^verbatim>\<open>assert\<close> of the source is a value of \<open>error\<close>, and a function
  that may raise returns \<open>error + 'a\<close> with \<open>Inl\<close> the error.
\<close>

datatype error =
    ValueError string
  | NotImplementedError string
  | RuntimeError string
  | AssertionError
  | IndexError
  | KeyError string
  | AttributeError string
  | TypeError string

text \<open>
  Tensors are nested lists, outermost axis first: a vector \<open>(D)\<close>, a matrix
  \<open>(B, D)\<close>, a token tensor \<open>(T, B, D)\<close> or \<open>(B, T, D)\<close>.
\<close>

type_synonym vec = "real list"
type_synonym mat = "real list list"
type_synonym tok = "real list list list"

text \<open>An image is \<open>(C, H, W)\<close>; the stacked images of a batch are \<open>(B, T, N)\<close> images.\<close>

type_synonym image = "real list list list"

text \<open>
  The fields of \<^verbatim>\<open>DiTConfig\<close> that the source reads. The class itself is declared
  outside the file; its fields are Python ints, floats, strings and optionals.
  A feature is recorded by \<^verbatim>\<open>shape[0]\<close>, the only part of it the source reads;
  \<^verbatim>\<open>image_features\<close> by its keys.
\<close>

record DiTConfig =
  n_obs_steps :: int
  horizon :: int
  n_action_steps :: int
  dim_model :: nat
  n_heads :: nat
  n_encoder_layers :: nat
  dim_feedforward :: nat
  time_dim :: int
  dropout :: real
  feedforward_activation :: string
  noise_scheduler_type :: string
  num_train_timesteps :: int
  beta_start :: real
  beta_end :: real
  beta_schedule :: string
  clip_sample :: bool
  prediction_type :: string
  num_inference_steps :: "int option"
  vision_backbone_norm_name :: string
  vision_backbone_norm_num_groups :: int
  vision_backbone_size :: int
  pretrained_backbone_weights :: "string option"
  avg_pool :: bool
  use_separate_rgb_encoder_per_camera :: bool
  image_features :: "string list"
  robot_state_feature :: "nat option"
  env_state_feature :: "nat option"
  action_feature :: nat

section \<open>Factories selected by name\<close>

text \<open>The keyword arguments \<^verbatim>\<open>DiT.__init__\<close> passes to the scheduler's constructor.\<close>

record scheduler_kwargs =
  kw_num_train_timesteps :: int
  kw_beta_start :: real
  kw_beta_end :: real
  kw_beta_schedule :: string
  kw_clip_sample :: bool
  kw_prediction_type :: string

datatype scheduler_kind = DDPMScheduler | DDIMScheduler

text \<open>
  A scheduler object: which class it is, the configuration it was built with, and the
  \<^verbatim>\<open>timesteps\<close> attribute that \<^verbatim>\<open>set_timesteps\<close> overwrites.
\<close>

record scheduler =
  sched_kind :: scheduler_kind
  sched_config :: scheduler_kwargs
  timesteps :: "int list"

definition new_scheduler :: "scheduler_kind \<Rightarrow> scheduler_kwargs \<Rightarrow> int list \<Rightarrow> scheduler" where
  "new_scheduler k kw ts = \<lparr>sched_kind = k, sched_config = kw, timesteps = ts\<rparr>"


text \<open>
  \<^verbatim>\<open>_make_norm\<close> returns a constructor of normalisation layers: the class
  \<^verbatim>\<open>nn.BatchNorm2d\<close>, a group norm with a fixed number of groups, or the builder that
  uses \<^verbatim>\<open>num_channels // 16\<close> groups.
\<close>

datatype norm_layer = BatchNorm2d | GroupNorm_fixed int | GroupNorm_div16


datatype activation = F_relu | GELU_tanh | F_glu

definition get_activation_fn :: "string \<Rightarrow> error + activation" where
  "get_activation_fn name =
     (if name = ''relu'' then Inr F_relu
      else if name = ''gelu'' then Inr GELU_tanh
      else if name = ''glu'' then Inr F_glu
      else Inl (RuntimeError (''activation should be relu/gelu/glu, not '' @ name @ ''.'')))"

datatype resnet_arch = ResNet18 | ResNet34 | ResNet50





text \<open>Sequencing of computations that may raise.\<close>

definition bind_err :: "error + 'a \<Rightarrow> ('a \<Rightarrow> error + 'b) \<Rightarrow> error + 'b" where
  "bind_err m f = (case m of Inl e \<Rightarrow> Inl e | Inr x \<Rightarrow> f x)"

section \<open>Tensor operations\<close>

text \<open>
  Elementwise operations pair the entries of two tensors of the same shape. On shapes
  that do not match (and cannot be broadcast) PyTorch raises; \<open>map2\<close> would cut to
  the shorter operand, so every theorem below that depends on an elementwise result
  states the shapes of its inputs.
\<close>

definition vadd :: "vec \<Rightarrow> vec \<Rightarrow> vec" where
  "vadd u v = map2 (+) u v"

definition madd :: "mat \<Rightarrow> mat \<Rightarrow> mat" where
  "madd a b = map2 vadd a b"

definition tadd :: "tok \<Rightarrow> tok \<Rightarrow> tok" where
  "tadd x y = map2 madd x y"

definition vmul :: "vec \<Rightarrow> vec \<Rightarrow> vec" where
  "vmul u v = map2 (*) u v"

definition mmul :: "mat \<Rightarrow> mat \<Rightarrow> mat" where
  "mmul a b = map2 vmul a b"

text \<open>\<^verbatim>\<open>x * m[None]\<close> and \<^verbatim>\<open>x + m[None]\<close>: a \<open>(B, D)\<close> matrix broadcast over the first axis.\<close>

definition bmul :: "tok \<Rightarrow> mat \<Rightarrow> tok" where
  "bmul x m = map (\<lambda>xt. mmul xt m) x"

definition badd :: "tok \<Rightarrow> mat \<Rightarrow> tok" where
  "badd x m = map (\<lambda>xt. madd xt m) x"

text \<open>
  \<^verbatim>\<open>torch.mean(c, axis=0)\<close>: the sum over the first axis divided by its length. (On an
  empty first axis PyTorch yields NaN entries; here the result is the empty tensor.)
\<close>

definition mean0_mat :: "mat \<Rightarrow> vec" where
  "mean0_mat m =
     (case m of [] \<Rightarrow> [] | r # rs \<Rightarrow> map (\<lambda>s. s / real (length m)) (foldl vadd r rs))"

definition mean0 :: "tok \<Rightarrow> mat" where
  "mean0 c =
     (case c of [] \<Rightarrow> []
      | m # ms \<Rightarrow> map (map (\<lambda>s. s / real (length c))) (foldl madd m ms))"

text \<open>
  \<^verbatim>\<open>einops.rearrange(x, 'B T ... -> T B ...')\<close> and \<^verbatim>\<open>x.transpose(0, 1)\<close>, on a tensor
  whose rows have one length. (A nested list does not record the length of the second
  axis when the first is empty: there the result is empty.)
\<close>

definition swap01 :: "'a list list \<Rightarrow> 'a list list" where
  "swap01 x = transpose x"

definition dot :: "vec \<Rightarrow> vec \<Rightarrow> real" where
  "dot u v = sum_list (map2 (*) u v)"

section \<open>Modules and their parameters\<close>

text \<open>
  \<^verbatim>\<open>nn.Linear(in, out)\<close>: \<open>weight\<close> is \<open>(out, in)\<close>, \<open>bias\<close> is \<open>(out)\<close>. On an input
  with another number of features than \<open>in\<close> PyTorch raises, where \<open>dot\<close> cuts to the
  shorter operand; the section on shape checks below has the layer that raises.
\<close>

record Linear =
  weight :: mat
  bias :: vec

definition Linear_vec :: "Linear \<Rightarrow> vec \<Rightarrow> vec" where
  "Linear_vec l v = map2 (\<lambda>row b. dot row v + b) (weight l) (bias l)"

definition Linear_mat :: "Linear \<Rightarrow> mat \<Rightarrow> mat" where
  "Linear_mat l m = map (Linear_vec l) m"

definition Linear_tok :: "Linear \<Rightarrow> tok \<Rightarrow> tok" where
  "Linear_tok l x = map (Linear_mat l) x"

text \<open>
  \<^verbatim>\<open>nn.MultiheadAttention\<close> and \<^verbatim>\<open>nn.LayerNorm\<close> are the library's; they are
  recorded by their parameter tensors, and their forward passes are fields of \<open>torch\<close>
  below.
\<close>

record MultiheadAttention =
  num_heads :: nat
  attn_dropout :: real
  in_proj_weight :: mat
  in_proj_bias :: vec
  out_proj :: Linear

record LayerNorm =
  ln_weight :: vec
  ln_bias :: vec

text \<open>
  What the source takes from PyTorch, torchvision and diffusers, as parameters of the
  model: the forward passes of library modules, the nonlinearities, dropout in training
  mode, the elementary functions, the image backbone, the scheduler's methods, and the
  numbers the random generator yields at position \<open>k\<close> of its stream (\<open>draw k\<close> for an initialiser,
  \<open>draw_normal k\<close> for \<^verbatim>\<open>torch.randn\<close>, \<open>draw_int k\<close> for \<^verbatim>\<open>torch.randint\<close>). The
  state of the generator is the position in that stream; \<open>scheduler_step\<close> takes and
  returns it. The scaling of the initialisers' distributions is the
  library's and is not modelled. The model is over the real numbers, which have neither
  infinities nor NaN: \<open>t_nan\<close> stands for the one value of that kind that a constructor
  of the source can store in a parameter (see \<open>TimeNetwork_init\<close>), and rounding and
  overflow of the library's floating-point arithmetic are not modelled.
\<close>

record torch =
  mha_forward :: "MultiheadAttention \<Rightarrow> bool \<Rightarrow> tok \<Rightarrow> tok \<Rightarrow> tok \<Rightarrow> tok"
  layer_norm :: "LayerNorm \<Rightarrow> tok \<Rightarrow> tok"
  silu :: "real \<Rightarrow> real"
  activation_forward :: "activation \<Rightarrow> vec \<Rightarrow> vec"
  dropout_train :: "real \<Rightarrow> tok \<Rightarrow> tok"
  resnet_forward :: "resnet_arch \<Rightarrow> norm_layer \<Rightarrow> bool \<Rightarrow> image list \<Rightarrow> mat"
  set_timesteps :: "scheduler \<Rightarrow> int \<Rightarrow> scheduler"
  scheduler_step :: "scheduler \<Rightarrow> nat \<Rightarrow> tok \<Rightarrow> int \<Rightarrow> tok \<Rightarrow> tok \<times> nat"
  add_noise :: "scheduler \<Rightarrow> tok \<Rightarrow> tok \<Rightarrow> int list \<Rightarrow> tok"
  t_sin :: "real \<Rightarrow> real"
  t_cos :: "real \<Rightarrow> real"
  t_exp :: "real \<Rightarrow> real"
  t_log :: "real \<Rightarrow> real"
  t_nan :: real
  draw :: "nat \<Rightarrow> real"
  draw_normal :: "nat \<Rightarrow> real"
  draw_int :: "nat \<Rightarrow> int"

text \<open>\<^verbatim>\<open>nn.Dropout(p)\<close>: the identity in eval mode.\<close>

definition Dropout :: "torch \<Rightarrow> bool \<Rightarrow> real \<Rightarrow> tok \<Rightarrow> tok" where
  "Dropout L training p x = (if training then dropout_train L p x else x)"

record ShiftScaleMod =
  ss_scale :: Linear
  ss_shift :: Linear

record ZeroScaleMod =
  zs_scale :: Linear

definition ShiftScaleMod_forward :: "torch \<Rightarrow> ShiftScaleMod \<Rightarrow> tok \<Rightarrow> mat \<Rightarrow> tok" where
  "ShiftScaleMod_forward L m x c =
     (let c = map (map (silu L)) c
      in badd (bmul x (Linear_mat (ss_scale m) c)) (Linear_mat (ss_shift m) c))"

definition ZeroScaleMod_forward :: "torch \<Rightarrow> ZeroScaleMod \<Rightarrow> tok \<Rightarrow> mat \<Rightarrow> tok" where
  "ZeroScaleMod_forward L m x c =
     (let c = map (map (silu L)) c
      in bmul x (Linear_mat (zs_scale m) c))"

record DiTDecoderLayer =
  dl_self_attn :: MultiheadAttention
  dl_linear1 :: Linear
  dl_linear2 :: Linear
  dl_norm1 :: LayerNorm
  dl_norm2 :: LayerNorm
  dl_dropout :: real
  dl_activation :: activation
  attn_mod1 :: ShiftScaleMod
  attn_mod2 :: ZeroScaleMod
  mlp_mod1 :: ShiftScaleMod
  mlp_mod2 :: ZeroScaleMod

definition DiTDecoderLayer_forward ::
  "torch \<Rightarrow> bool \<Rightarrow> DiTDecoderLayer \<Rightarrow> tok \<Rightarrow> mat \<Rightarrow> tok \<Rightarrow> tok" where
  "DiTDecoderLayer_forward L training l x t cond =
     (let cond = mean0 cond;
          cond = madd cond t;
          x2 = ShiftScaleMod_forward L (attn_mod1 l) (layer_norm L (dl_norm1 l) x) cond;
          x2 = mha_forward L (dl_self_attn l) training x2 x2 x2;
          x = tadd (ZeroScaleMod_forward L (attn_mod2 l) (Dropout L training (dl_dropout l) x2) cond) x;
          x2 = ShiftScaleMod_forward L (mlp_mod1 l) (layer_norm L (dl_norm2 l) x) cond;
          x2 = Linear_tok (dl_linear2 l)
                 (Dropout L training (dl_dropout l)
                    (map (map (activation_forward L (dl_activation l)))
                       (Linear_tok (dl_linear1 l) x2)));
          x2 = ZeroScaleMod_forward L (mlp_mod2 l) (Dropout L training (dl_dropout l) x2) cond
      in tadd x x2)"

text \<open>\<^verbatim>\<open>DiTDecoder.forward\<close>: the layers in order, each given the same \<open>t\<close> and \<open>cond\<close>.\<close>

definition DiTDecoder_forward ::
  "torch \<Rightarrow> bool \<Rightarrow> DiTDecoderLayer list \<Rightarrow> tok \<Rightarrow> mat \<Rightarrow> tok \<Rightarrow> tok" where
  "DiTDecoder_forward L training layers x time_embed encoder_out =
     foldl (\<lambda>x layer. DiTDecoderLayer_forward L training layer x time_embed encoder_out) x layers"

text \<open>
  The output head. \<^verbatim>\<open>FinalLayer.forward\<close> is written for any rank of \<open>cond\<close>: its
  first two statements are \<^verbatim>\<open>cond = torch.mean(cond, axis=0); cond = cond + t\<close>. Given a
  \<open>(T, B, D)\<close> tensor the mean is \<open>(B, D)\<close>; given a \<open>(B, D)\<close> tensor the mean is \<open>(D)\<close>
  and the sum with \<open>t\<close> broadcasts it over the rows of \<open>t\<close>.
\<close>

datatype cond_arg = Rank3 tok | Rank2 mat

record FinalLayer =
  fl_linear :: Linear
  adaLN_modulation :: Linear

definition FinalLayer_cond :: "cond_arg \<Rightarrow> mat \<Rightarrow> mat" where
  "FinalLayer_cond cond t =
     (case cond of
        Rank3 c \<Rightarrow> madd (mean0 c) t
      | Rank2 m \<Rightarrow> map (\<lambda>tb. vadd (mean0_mat m) tb) t)"

text \<open>\<^verbatim>\<open>.chunk(2, dim=1)\<close>: the first \<open>ceil(n / 2)\<close> columns and the rest.\<close>

definition chunk2 :: "mat \<Rightarrow> mat \<times> mat" where
  "chunk2 m =
     (map (\<lambda>r. take ((length r + 1) div 2) r) m, map (\<lambda>r. drop ((length r + 1) div 2) r) m)"

definition FinalLayer_forward :: "torch \<Rightarrow> FinalLayer \<Rightarrow> tok \<Rightarrow> mat \<Rightarrow> cond_arg \<Rightarrow> tok" where
  "FinalLayer_forward L fl x t cond =
     (let cond = FinalLayer_cond cond t;
          (shift, scale) = chunk2 (Linear_mat (adaLN_modulation fl) (map (map (silu L)) cond));
          x = badd (bmul x scale) shift;
          x = Linear_tok (fl_linear fl) x
      in swap01 x)"

text \<open>\<^verbatim>\<open>FinalLayer.reset_parameters\<close>: every parameter is overwritten with zeros.\<close>

definition zeros_vec :: "vec \<Rightarrow> vec" where
  "zeros_vec v = map (\<lambda>_. 0) v"

definition zeros_mat :: "mat \<Rightarrow> mat" where
  "zeros_mat w = map zeros_vec w"

definition zeros_Linear :: "Linear \<Rightarrow> Linear" where
  "zeros_Linear l = \<lparr>weight = zeros_mat (weight l), bias = zeros_vec (bias l)\<rparr>"

definition FinalLayer_reset_parameters :: "FinalLayer \<Rightarrow> FinalLayer" where
  "FinalLayer_reset_parameters fl =
     \<lparr>fl_linear = zeros_Linear (fl_linear fl),
      adaLN_modulation = zeros_Linear (adaLN_modulation fl)\<rparr>"

subsection \<open>The conditioning encoder\<close>

record DiTEncoderLayer =
  el_self_attn :: MultiheadAttention
  el_linear1 :: Linear
  el_linear2 :: Linear
  el_norm1 :: LayerNorm
  el_norm2 :: LayerNorm
  el_dropout :: real
  el_activation :: activation

definition with_pos_embed :: "tok \<Rightarrow> tok option \<Rightarrow> tok" where
  "with_pos_embed tensor pos = (case pos of None \<Rightarrow> tensor | Some p \<Rightarrow> tadd tensor p)"

definition DiTEncoderLayer_forward ::
  "torch \<Rightarrow> bool \<Rightarrow> DiTEncoderLayer \<Rightarrow> tok \<Rightarrow> tok option \<Rightarrow> tok" where
  "DiTEncoderLayer_forward L training l src pos_embed =
     (let q = with_pos_embed src pos_embed;
          k = q;
          src2 = mha_forward L (el_self_attn l) training q k src;
          src = tadd src (Dropout L training (el_dropout l) src2);
          src = layer_norm L (el_norm1 l) src;
          src2 = Linear_tok (el_linear2 l)
                   (Dropout L training (el_dropout l)
                      (map (map (activation_forward L (el_activation l)))
                         (Linear_tok (el_linear1 l) src)));
          src = tadd src (Dropout L training (el_dropout l) src2);
          src = layer_norm L (el_norm2 l) src
      in src)"

definition DiTEncoder_forward ::
  "torch \<Rightarrow> bool \<Rightarrow> DiTEncoderLayer list \<Rightarrow> tok \<Rightarrow> tok option \<Rightarrow> tok" where
  "DiTEncoder_forward L training layers x pos_embed =
     foldl (\<lambda>x layer. DiTEncoderLayer_forward L training layer x pos_embed) x layers"

text \<open>
  \<^verbatim>\<open>PositionalEncoding\<close>: the buffer \<open>pe\<close> is a \<open>(max_len, 1, d_model)\<close> table, kept here
  as its \<open>max_len\<close> rows. \<^verbatim>\<open>forward(x)\<close> returns the first \<open>x.shape[0]\<close> rows, each
  repeated \<open>x.shape[1]\<close> times; it does not add them to \<open>x\<close>.

  The constructor fills the even columns with sines and the odd columns with cosines of
  the same \<open>ceil(d_model / 2)\<close> frequencies. For an odd \<open>d_model\<close> there is one odd
  column less than there are frequencies and the second assignment raises, except for
  \<open>d_model = 1\<close>: there the single frequency is broadcast to the empty set of odd
  columns, and the table has its one column of sines.
\<close>

definition pe_entry :: "torch \<Rightarrow> nat \<Rightarrow> nat \<Rightarrow> nat \<Rightarrow> real" where
  "pe_entry L d_model pos j =
     (if even j then t_sin L (real pos * t_exp L (real j * - (t_log L 10000 / real d_model)))
      else t_cos L (real pos * t_exp L (real (j - 1) * - (t_log L 10000 / real d_model))))"

definition PositionalEncoding_init :: "torch \<Rightarrow> nat \<Rightarrow> nat \<Rightarrow> error + mat" where
  "PositionalEncoding_init L d_model max_len =
     (if odd d_model \<and> d_model \<noteq> 1 then Inl (RuntimeError ''shape mismatch'')
      else Inr (map (\<lambda>pos. map (pe_entry L d_model pos) [0..<d_model]) [0..<max_len]))"

text \<open>\<^verbatim>\<open>x.shape[1]\<close>, read from the first row (0 for an empty first axis).\<close>

definition shape1 :: "tok \<Rightarrow> nat" where
  "shape1 x = (case x of [] \<Rightarrow> 0 | m # _ \<Rightarrow> length m)"

definition PositionalEncoding_forward :: "mat \<Rightarrow> tok \<Rightarrow> tok" where
  "PositionalEncoding_forward pe x = map (\<lambda>row. replicate (shape1 x) row) (take (length x) pe)"

subsection \<open>The time network\<close>

record TimeNetwork =
  tn_w :: vec
  out_net0 :: Linear
  out_net2 :: Linear

definition TimeNetwork_forward :: "torch \<Rightarrow> TimeNetwork \<Rightarrow> int list \<Rightarrow> mat" where
  "TimeNetwork_forward L tn x =
     (let x = map (\<lambda>xb. map (\<lambda>w. real_of_int xb * w) (tn_w tn)) x;
          x = map (\<lambda>r. map (t_cos L) r @ map (t_sin L) r) x
      in Linear_mat (out_net2 tn) (map (map (silu L)) (Linear_mat (out_net0 tn) x)))"

subsection \<open>The noise network\<close>

record DiTNoiseNet =
  enc_pos :: mat
  dec_pos :: mat
  time_net :: TimeNetwork
  ac_proj0 :: Linear
  ac_proj2 :: Linear
  encoder :: "DiTEncoderLayer list"
  decoder :: "DiTDecoderLayer list"
  eps_out :: FinalLayer

definition DiTNoiseNet_forward_enc :: "torch \<Rightarrow> bool \<Rightarrow> DiTNoiseNet \<Rightarrow> tok \<Rightarrow> tok" where
  "DiTNoiseNet_forward_enc L training net global_cond =
     (let global_cond = swap01 global_cond;
          pos = PositionalEncoding_forward (enc_pos net) global_cond;
          enc_cache = DiTEncoder_forward L training (encoder net) global_cond (Some pos)
      in enc_cache)"

text \<open>
  \<^verbatim>\<open>forward_dec\<close>. \<open>dec_pos\<close> is \<open>(horizon, 1, dim_model)\<close> and is broadcast over the
  batch axis; in \<^verbatim>\<open>ac_tokens + self.dec_pos\<close> a first axis of length one is broadcast
  over the other operand's. (Where the two first axes differ and neither has length
  one PyTorch raises; \<open>map2\<close> cuts to the shorter. A network as \<open>DiTNoiseNet_init\<close>
  builds it has \<open>horizon\<close> rows in \<open>dec_pos\<close>, the number of steps of the sample that
  \<^verbatim>\<open>conditional_sample\<close> draws.) \<^verbatim>\<open>enc_cache[-1]\<close> is the last entry along the first
  axis of the cache, and raises on an empty cache.
\<close>

definition add_dec_pos :: "tok \<Rightarrow> mat \<Rightarrow> tok" where
  "add_dec_pos ac_tokens pos =
     (if length pos = 1 then map (\<lambda>xt. map (\<lambda>xb. vadd xb (hd pos)) xt) ac_tokens
      else if length ac_tokens = 1 then map (\<lambda>p. map (\<lambda>xb. vadd xb p) (hd ac_tokens)) pos
      else map2 (\<lambda>xt p. map (\<lambda>xb. vadd xb p) xt) ac_tokens pos)"

definition DiTNoiseNet_forward_dec ::
  "torch \<Rightarrow> bool \<Rightarrow> DiTNoiseNet \<Rightarrow> tok \<Rightarrow> int list \<Rightarrow> tok \<Rightarrow> error + tok" where
  "DiTNoiseNet_forward_dec L training net noise_actions time enc_cache =
     (let time_enc = TimeNetwork_forward L (time_net net) time;
          ac_tokens = Linear_tok (ac_proj2 net)
                        (map (map (activation_forward L GELU_tanh))
                           (Linear_tok (ac_proj0 net) noise_actions));
          ac_tokens = swap01 ac_tokens;
          dec_in = add_dec_pos ac_tokens (dec_pos net);
          dec_out = DiTDecoder_forward L training (decoder net) dec_in time_enc enc_cache
      in if enc_cache = [] then Inl IndexError
         else Inr (FinalLayer_forward L (eps_out net) dec_out time_enc (Rank2 (last enc_cache))))"

text \<open>\<^verbatim>\<open>DiTNoiseNet.forward\<close>: the cache is computed unless one is passed in.\<close>

definition DiTNoiseNet_forward ::
  "torch \<Rightarrow> bool \<Rightarrow> DiTNoiseNet \<Rightarrow> tok \<Rightarrow> int list \<Rightarrow> tok \<Rightarrow> tok option \<Rightarrow> error + (tok \<times> tok)" where
  "DiTNoiseNet_forward L training net noise_actions time global_cond enc_cache =
     (let enc_cache = (case enc_cache of None \<Rightarrow> DiTNoiseNet_forward_enc L training net global_cond
                        | Some c \<Rightarrow> c)
      in bind_err (DiTNoiseNet_forward_dec L training net noise_actions time enc_cache)
           (\<lambda>out. Inr (enc_cache, out)))"

section \<open>Construction\<close>

text \<open>
  Constructors thread the position \<open>g\<close> in the random generator's stream: a fresh
  parameter tensor is filled with the next draws. A constructor that may raise returns
  \<open>error + (module \<times> position)\<close>.
\<close>

definition draw_vec :: "torch \<Rightarrow> nat \<Rightarrow> nat \<Rightarrow> vec \<times> nat" where
  "draw_vec L n g = (map (draw L) [g..<g + n], g + n)"

definition draw_mat :: "torch \<Rightarrow> nat \<Rightarrow> nat \<Rightarrow> nat \<Rightarrow> mat \<times> nat" where
  "draw_mat L r c g = (map (\<lambda>i. map (draw L) [g + i * c..<g + (i + 1) * c]) [0..<r], g + r * c)"

definition ncols :: "mat \<Rightarrow> nat" where
  "ncols w = (case w of [] \<Rightarrow> 0 | r # _ \<Rightarrow> length r)"

text \<open>\<^verbatim>\<open>nn.init.xavier_uniform_(p)\<close>: the tensor is overwritten, in its shape, with new draws.\<close>

definition xavier_uniform :: "torch \<Rightarrow> mat \<Rightarrow> nat \<Rightarrow> mat \<times> nat" where
  "xavier_uniform L w g = draw_mat L (length w) (ncols w) g"

definition new_Linear :: "torch \<Rightarrow> nat \<Rightarrow> nat \<Rightarrow> nat \<Rightarrow> Linear \<times> nat" where
  "new_Linear L in_features out_features g =
     (let (w, g) = draw_mat L out_features in_features g;
          (b, g) = draw_vec L out_features g
      in (\<lparr>weight = w, bias = b\<rparr>, g))"

definition new_MultiheadAttention ::
  "torch \<Rightarrow> nat \<Rightarrow> nat \<Rightarrow> real \<Rightarrow> nat \<Rightarrow> MultiheadAttention \<times> nat" where
  "new_MultiheadAttention L embed_dim heads p g =
     (let (w, g) = draw_mat L (3 * embed_dim) embed_dim g;
          (b, g) = draw_vec L (3 * embed_dim) g;
          (out, g) = new_Linear L embed_dim embed_dim g
      in (\<lparr>num_heads = heads, attn_dropout = p, in_proj_weight = w, in_proj_bias = b,
           out_proj = out\<rparr>, g))"

definition new_LayerNorm :: "nat \<Rightarrow> LayerNorm" where
  "new_LayerNorm d = \<lparr>ln_weight = replicate d 1, ln_bias = replicate d 0\<rparr>"

definition new_ShiftScaleMod :: "torch \<Rightarrow> nat \<Rightarrow> nat \<Rightarrow> ShiftScaleMod \<times> nat" where
  "new_ShiftScaleMod L d g =
     (let (sc, g) = new_Linear L d d g;
          (sh, g) = new_Linear L d d g
      in (\<lparr>ss_scale = sc, ss_shift = sh\<rparr>, g))"

definition new_ZeroScaleMod :: "torch \<Rightarrow> nat \<Rightarrow> nat \<Rightarrow> ZeroScaleMod \<times> nat" where
  "new_ZeroScaleMod L d g =
     (let (sc, g) = new_Linear L d d g in (\<lparr>zs_scale = sc\<rparr>, g))"

definition ShiftScaleMod_reset_parameters ::
  "torch \<Rightarrow> ShiftScaleMod \<Rightarrow> nat \<Rightarrow> ShiftScaleMod \<times> nat" where
  "ShiftScaleMod_reset_parameters L m g =
     (let (w1, g) = xavier_uniform L (weight (ss_scale m)) g;
          (w2, g) = xavier_uniform L (weight (ss_shift m)) g
      in (\<lparr>ss_scale = \<lparr>weight = w1, bias = zeros_vec (bias (ss_scale m))\<rparr>,
           ss_shift = \<lparr>weight = w2, bias = zeros_vec (bias (ss_shift m))\<rparr>\<rparr>, g))"

definition ZeroScaleMod_reset_parameters :: "ZeroScaleMod \<Rightarrow> ZeroScaleMod" where
  "ZeroScaleMod_reset_parameters m =
     \<lparr>zs_scale = \<lparr>weight = zeros_mat (weight (zs_scale m)),
                  bias = zeros_vec (bias (zs_scale m))\<rparr>\<rparr>"

text \<open>
  \<^verbatim>\<open>DiTDecoderLayer.__init__\<close>. The submodules are built in the order of the source; the
  activation's name is looked up after the linear layers and norms exist.
\<close>

definition DiTDecoderLayer_init ::
  "torch \<Rightarrow> DiTConfig \<Rightarrow> nat \<Rightarrow> error + (DiTDecoderLayer \<times> nat)" where
  "DiTDecoderLayer_init L config g =
     (let (sa, g) = new_MultiheadAttention L (dim_model config) (n_heads config) (dropout config) g;
          (l1, g) = new_Linear L (dim_model config) (dim_feedforward config) g;
          (l2, g) = new_Linear L (dim_feedforward config) (dim_model config) g
      in bind_err (get_activation_fn (feedforward_activation config)) (\<lambda>act.
           let (am1, g) = new_ShiftScaleMod L (dim_model config) g;
               (am2, g) = new_ZeroScaleMod L (dim_model config) g;
               (mm1, g) = new_ShiftScaleMod L (dim_model config) g;
               (mm2, g) = new_ZeroScaleMod L (dim_model config) g
           in Inr (\<lparr>dl_self_attn = sa, dl_linear1 = l1, dl_linear2 = l2,
                     dl_norm1 = new_LayerNorm (dim_model config),
                     dl_norm2 = new_LayerNorm (dim_model config),
                     dl_dropout = dropout config, dl_activation = act,
                     attn_mod1 = am1, attn_mod2 = am2, mlp_mod1 = mm1, mlp_mod2 = mm2\<rparr>, g)))"

text \<open>
  \<^verbatim>\<open>DiTDecoderLayer.reset_parameters\<close>: first every parameter of more than one
  dimension is overwritten by \<^verbatim>\<open>xavier_uniform_\<close>, in the order of registration (the
  weights of the four modulations among them); then each modulation resets itself.
\<close>

definition xavier_Linear :: "torch \<Rightarrow> Linear \<Rightarrow> nat \<Rightarrow> Linear \<times> nat" where
  "xavier_Linear L l g = (let (w, g) = xavier_uniform L (weight l) g in (l\<lparr>weight := w\<rparr>, g))"

definition xavier_MultiheadAttention ::
  "torch \<Rightarrow> MultiheadAttention \<Rightarrow> nat \<Rightarrow> MultiheadAttention \<times> nat" where
  "xavier_MultiheadAttention L a g =
     (let (w, g) = xavier_uniform L (in_proj_weight a) g;
          (out, g) = xavier_Linear L (out_proj a) g
      in (a\<lparr>in_proj_weight := w, out_proj := out\<rparr>, g))"

definition DiTDecoderLayer_reset_parameters ::
  "torch \<Rightarrow> DiTDecoderLayer \<Rightarrow> nat \<Rightarrow> DiTDecoderLayer \<times> nat" where
  "DiTDecoderLayer_reset_parameters L l g =
     (let (sa, g) = xavier_MultiheadAttention L (dl_self_attn l) g;
          (l1, g) = xavier_Linear L (dl_linear1 l) g;
          (l2, g) = xavier_Linear L (dl_linear2 l) g;
          (am1_sc, g) = xavier_Linear L (ss_scale (attn_mod1 l)) g;
          (am1_sh, g) = xavier_Linear L (ss_shift (attn_mod1 l)) g;
          (am2_sc, g) = xavier_Linear L (zs_scale (attn_mod2 l)) g;
          (mm1_sc, g) = xavier_Linear L (ss_scale (mlp_mod1 l)) g;
          (mm1_sh, g) = xavier_Linear L (ss_shift (mlp_mod1 l)) g;
          (mm2_sc, g) = xavier_Linear L (zs_scale (mlp_mod2 l)) g;
          (am1, g) = ShiftScaleMod_reset_parameters L \<lparr>ss_scale = am1_sc, ss_shift = am1_sh\<rparr> g;
          am2 = ZeroScaleMod_reset_parameters \<lparr>zs_scale = am2_sc\<rparr>;
          (mm1, g) = ShiftScaleMod_reset_parameters L \<lparr>ss_scale = mm1_sc, ss_shift = mm1_sh\<rparr> g;
          mm2 = ZeroScaleMod_reset_parameters \<lparr>zs_scale = mm2_sc\<rparr>
      in (l\<lparr>dl_self_attn := sa, dl_linear1 := l1, dl_linear2 := l2,
             attn_mod1 := am1, attn_mod2 := am2, mlp_mod1 := mm1, mlp_mod2 := mm2\<rparr>, g))"

text \<open>
  \<^verbatim>\<open>[Layer(config) for _ in range(n)]\<close> and \<^verbatim>\<open>for layer in layers: layer.reset_parameters()\<close>.
\<close>

primrec init_layers ::
  "(nat \<Rightarrow> error + ('l \<times> nat)) \<Rightarrow> nat \<Rightarrow> nat \<Rightarrow> error + ('l list \<times> nat)" where
  "init_layers mk 0 g = Inr ([], g)"
| "init_layers mk (Suc n) g =
     bind_err (mk g) (\<lambda>(l, g). bind_err (init_layers mk n g) (\<lambda>(ls, g). Inr (l # ls, g)))"

primrec reset_layers :: "('l \<Rightarrow> nat \<Rightarrow> 'l \<times> nat) \<Rightarrow> 'l list \<Rightarrow> nat \<Rightarrow> 'l list \<times> nat" where
  "reset_layers rs [] g = ([], g)"
| "reset_layers rs (l # ls) g =
     (let (l', g) = rs l g; (ls', g) = reset_layers rs ls g in (l' # ls', g))"

text \<open>\<^verbatim>\<open>DiTDecoder.__init__\<close>; the number of layers is \<^verbatim>\<open>config.n_encoder_layers\<close>.\<close>

definition DiTDecoder_init ::
  "torch \<Rightarrow> DiTConfig \<Rightarrow> nat \<Rightarrow> error + (DiTDecoderLayer list \<times> nat)" where
  "DiTDecoder_init L config g =
     bind_err (init_layers (DiTDecoderLayer_init L config) (n_encoder_layers config) g)
       (\<lambda>(layers, g). Inr (reset_layers (DiTDecoderLayer_reset_parameters L) layers g))"

definition DiTEncoderLayer_init ::
  "torch \<Rightarrow> DiTConfig \<Rightarrow> nat \<Rightarrow> error + (DiTEncoderLayer \<times> nat)" where
  "DiTEncoderLayer_init L config g =
     (let (sa, g) = new_MultiheadAttention L (dim_model config) (n_heads config) (dropout config) g;
          (l1, g) = new_Linear L (dim_model config) (dim_feedforward config) g;
          (l2, g) = new_Linear L (dim_feedforward config) (dim_model config) g
      in bind_err (get_activation_fn (feedforward_activation config)) (\<lambda>act.
           Inr (\<lparr>el_self_attn = sa, el_linear1 = l1, el_linear2 = l2,
                  el_norm1 = new_LayerNorm (dim_model config),
                  el_norm2 = new_LayerNorm (dim_model config),
                  el_dropout = dropout config, el_activation = act\<rparr>, g)))"

definition DiTEncoderLayer_reset_parameters ::
  "torch \<Rightarrow> DiTEncoderLayer \<Rightarrow> nat \<Rightarrow> DiTEncoderLayer \<times> nat" where
  "DiTEncoderLayer_reset_parameters L l g =
     (let (sa, g) = xavier_MultiheadAttention L (el_self_attn l) g;
          (l1, g) = xavier_Linear L (el_linear1 l) g;
          (l2, g) = xavier_Linear L (el_linear2 l) g
      in (l\<lparr>el_self_attn := sa, el_linear1 := l1, el_linear2 := l2\<rparr>, g))"

definition DiTEncoder_init ::
  "torch \<Rightarrow> DiTConfig \<Rightarrow> nat \<Rightarrow> error + (DiTEncoderLayer list \<times> nat)" where
  "DiTEncoder_init L config g =
     bind_err (init_layers (DiTEncoderLayer_init L config) (n_encoder_layers config) g)
       (\<lambda>(layers, g). Inr (reset_layers (DiTEncoderLayer_reset_parameters L) layers g))"

text \<open>
  \<^verbatim>\<open>FinalLayer.__init__\<close>: two linear layers with the library's initial values (the norm
  has no parameters). The constructor does not call \<^verbatim>\<open>reset_parameters\<close>.
\<close>

definition FinalLayer_init :: "torch \<Rightarrow> nat \<Rightarrow> nat \<Rightarrow> nat \<Rightarrow> FinalLayer \<times> nat" where
  "FinalLayer_init L hidden_size out_size g =
     (let (lin, g) = new_Linear L hidden_size out_size g;
          (ada, g) = new_Linear L hidden_size (2 * hidden_size) g
      in (\<lparr>fl_linear = lin, adaLN_modulation = ada\<rparr>, g))"

text \<open>
  \<^verbatim>\<open>TimeNetwork.__init__\<close>. For \<open>time_dim = 2\<close> the source divides by
  \<open>half_dim - 1 = 0\<close>: numpy yields an infinity, the product with \<^verbatim>\<open>arange(1)\<close> is NaN,
  and the one weight stored is NaN; here it is the library's \<open>t_nan\<close>.
\<close>

definition TimeNetwork_init ::
  "torch \<Rightarrow> int \<Rightarrow> nat \<Rightarrow> nat \<Rightarrow> error + (TimeNetwork \<times> nat)" where
  "TimeNetwork_init L tdim out_dim g =
     (if tdim mod 2 \<noteq> 0 then Inl AssertionError
      else if tdim < 0 then Inl (RuntimeError ''negative dimension'')
      else
        let half_dim = nat (tdim div 2);
            w = t_log L 10000 / (real half_dim - 1);
            w = (if half_dim = 1 then [t_nan L]
                 else map (\<lambda>j. t_exp L (real j * - w)) [0..<half_dim]);
            (n0, g) = new_Linear L (nat tdim) out_dim g;
            (n2, g) = new_Linear L out_dim out_dim g
        in Inr (\<lparr>tn_w = w, out_net0 = n0, out_net2 = n2\<rparr>, g))"

text \<open>\<^verbatim>\<open>DiTNoiseNet.__init__\<close>; \<^verbatim>\<open>PositionalEncoding\<close> is built with its default \<open>max_len\<close>.\<close>

definition DiTNoiseNet_init :: "torch \<Rightarrow> DiTConfig \<Rightarrow> nat \<Rightarrow> error + (DiTNoiseNet \<times> nat)" where
  "DiTNoiseNet_init L config g =
     bind_err (PositionalEncoding_init L (dim_model config) 5000) (\<lambda>pe.
       if horizon config < 0 then Inl (RuntimeError ''negative dimension'')
       else
         let (dp, g) = draw_mat L (nat (horizon config)) (dim_model config) g
         in bind_err (TimeNetwork_init L (time_dim config) (dim_model config) g) (\<lambda>(tn, g).
              let action_dim = action_feature config;
                  (p0, g) = new_Linear L action_dim action_dim g;
                  (p2, g) = new_Linear L action_dim (dim_model config) g
              in bind_err (DiTEncoder_init L config g) (\<lambda>(enc, g).
                   bind_err (DiTDecoder_init L config g) (\<lambda>(dec, g).
                     let (eps, g) = FinalLayer_init L (dim_model config) action_dim g
                     in Inr (\<lparr>enc_pos = pe, dec_pos = dp, time_net = tn, ac_proj0 = p0,
                               ac_proj2 = p2, encoder = enc, decoder = dec, eps_out = eps\<rparr>, g)))))"

subsection \<open>The image encoder\<close>

record DiTRgbEncoder =
  rgb_model :: resnet_arch
  rgb_norm :: norm_layer
  rgb_size :: int
  rgb_avg_pool :: bool


text \<open>
  \<^verbatim>\<open>{18: 512, 34: 512, 50: 2048}[self._size]\<close>; the constructor admits no other size.
\<close>

definition embed_dim :: "DiTRgbEncoder \<Rightarrow> nat" where
  "embed_dim e = (if rgb_size e = 50 then 2048 else 512)"

text \<open>
  \<^verbatim>\<open>DiTRgbEncoder.forward\<close>: one token per image with average pooling, else the
  backbone's output reshaped to \<open>(embed_dim, -1)\<close> and transposed, per image.
\<close>

definition chop :: "nat \<Rightarrow> 'a list \<Rightarrow> 'a list list" where
  "chop k xs = map (\<lambda>i. take k (drop (i * k) xs)) [0..<length xs div k]"

definition DiTRgbEncoder_forward :: "torch \<Rightarrow> bool \<Rightarrow> DiTRgbEncoder \<Rightarrow> image list \<Rightarrow> tok" where
  "DiTRgbEncoder_forward L training e x =
     (let y = resnet_forward L (rgb_model e) (rgb_norm e) training x
      in if rgb_avg_pool e then map (\<lambda>v. [v]) y
         else map (\<lambda>v. transpose (chop (length v div embed_dim e) v)) y)"

datatype rgb_encoders = Shared DiTRgbEncoder | Separate "DiTRgbEncoder list"


section \<open>The diffusion model\<close>

record DiT =
  config :: DiTConfig
  training :: bool
  robot_state_encoder :: "Linear option"
  rgb_encoder :: "rgb_encoders option"
  env_state_encoder :: "Linear option"
  noise_net :: DiTNoiseNet
  noise_scheduler :: scheduler
  dit_num_inference_steps :: int



text \<open>
  A batch given to the diffusion model: a dictionary, with the keys the source reads
  as optional fields (\<open>None\<close>: the key is absent).
\<close>

record batch =
  observation_state :: "tok option"
  observation_images :: "image list list list option"
  observation_environment_state :: "tok option"
  action :: "tok option"
  action_is_pad :: "bool list list option"

definition lookup :: "string \<Rightarrow> 'a option \<Rightarrow> error + 'a" where
  "lookup key v = (case v of None \<Rightarrow> Inl (KeyError key) | Some x \<Rightarrow> Inr x)"

definition attribute :: "string \<Rightarrow> 'a option \<Rightarrow> error + 'a" where
  "attribute name v = (case v of None \<Rightarrow> Inl (AttributeError name) | Some x \<Rightarrow> Inr x)"

text \<open>\<^verbatim>\<open>torch.cat(feats, dim=1)\<close> of \<open>(B, T\<^sub>i, D)\<close> tensors; it raises on an empty list.\<close>

definition cat1 :: "tok list \<Rightarrow> error + tok" where
  "cat1 feats =
     (case feats of [] \<Rightarrow> Inl (RuntimeError ''torch.cat(): expected a non-empty list of Tensors'')
      | f # fs \<Rightarrow> Inr (foldl (map2 (@)) f fs))"

text \<open>
  The image branch of \<^verbatim>\<open>_prepare_global_conditioning\<close>. Each image's features are
  flattened; \<^verbatim>\<open>"(b s n) ... -> b s (n ...)"\<close> joins the cameras of one (batch, step) pair,
  \<^verbatim>\<open>"(n b s) ... -> b s (n ...)"\<close> does the same from camera-major order. (einops raises
  when the lengths do not divide; \<open>chop\<close> drops the remainder.) With one encoder per
  camera the batch is read before \<^verbatim>\<open>self.rgb_encoder\<close>; with the shared encoder
  \<^verbatim>\<open>self.rgb_encoder\<close> is evaluated first, then its argument.
\<close>

definition image_features_shared ::
  "torch \<Rightarrow> bool \<Rightarrow> DiTRgbEncoder \<Rightarrow> nat \<Rightarrow> nat \<Rightarrow> image list list list \<Rightarrow> tok" where
  "image_features_shared L tr e batch_size n_obs imgs =
     (let feats = DiTRgbEncoder_forward L tr e (concat (map concat imgs));
          rows = map concat feats;
          n = length rows div (batch_size * n_obs)
      in chop n_obs (map concat (chop n rows)))"

definition image_features_separate ::
  "torch \<Rightarrow> bool \<Rightarrow> DiTRgbEncoder list \<Rightarrow> nat \<Rightarrow> nat \<Rightarrow> image list list list \<Rightarrow> error + tok" where
  "image_features_separate L tr es batch_size n_obs imgs =
     (let images_per_camera = transpose (concat imgs)
      in if length es \<noteq> length images_per_camera
         then Inl (ValueError ''zip() arguments have different lengths'')
         else
           let feats = concat (map2 (DiTRgbEncoder_forward L tr) es images_per_camera);
               rows = map concat feats
           in Inr (chop n_obs (map concat (transpose (chop (batch_size * n_obs) rows)))))"

definition prepare_global_conditioning :: "torch \<Rightarrow> DiT \<Rightarrow> batch \<Rightarrow> error + tok" where
  "prepare_global_conditioning L dit b =
     bind_err (lookup ''observation.state'' (observation_state b)) (\<lambda>st.
       let batch_size = length st; n_obs = shape1 st
       in bind_err
            (if image_features (config dit) \<noteq> [] then
               if use_separate_rgb_encoder_per_camera (config dit) then
                 bind_err (lookup ''observation.images'' (observation_images b)) (\<lambda>imgs.
                   bind_err (attribute ''rgb_encoder'' (rgb_encoder dit)) (\<lambda>enc.
                     case enc of
                       Separate es \<Rightarrow>
                         bind_err (image_features_separate L (training dit) es batch_size n_obs imgs)
                           (\<lambda>f. Inr [f])
                     | Shared e \<Rightarrow> Inl (TypeError ''DiTRgbEncoder object is not iterable'')))
               else
                 bind_err (attribute ''rgb_encoder'' (rgb_encoder dit)) (\<lambda>enc.
                   bind_err (lookup ''observation.images'' (observation_images b)) (\<lambda>imgs.
                     case enc of
                       Shared e \<Rightarrow>
                         Inr [image_features_shared L (training dit) e batch_size n_obs imgs]
                     | Separate es \<Rightarrow>
                         Inl (NotImplementedError ''ModuleList is missing the forward function'')))
             else Inr [])
            (\<lambda>feats1.
               bind_err
                 (if robot_state_feature (config dit) \<noteq> None then
                    bind_err (attribute ''robot_state_encoder'' (robot_state_encoder dit)) (\<lambda>enc.
                      Inr (feats1 @ [Linear_tok enc (Dropout L (training dit) (2 / 10) st)]))
                  else Inr feats1)
                 (\<lambda>feats2.
                    bind_err
                      (if env_state_feature (config dit) \<noteq> None then
                         bind_err (lookup ''observation.environment_state''
                                     (observation_environment_state b)) (\<lambda>env.
                           bind_err (attribute ''env_state_encoder'' (env_state_encoder dit)) (\<lambda>enc.
                             Inr (feats2 @ [Linear_tok enc (Dropout L (training dit) (2 / 10) env)])))
                       else Inr feats2)
                      cat1)))"

subsection \<open>Sampling\<close>

text \<open>\<^verbatim>\<open>torch.randn(size=(B, H, A))\<close>: filled with the next \<open>B * H * A\<close> draws.\<close>

definition randn :: "torch \<Rightarrow> nat \<Rightarrow> nat \<Rightarrow> nat \<Rightarrow> nat \<Rightarrow> tok \<times> nat" where
  "randn L B H A g =
     (map (\<lambda>b. map (\<lambda>h. map (\<lambda>a. draw_normal L (g + (b * H + h) * A + a)) [0..<A]) [0..<H]) [0..<B],
      g + B * H * A)"

text \<open>
  The calls \<^verbatim>\<open>conditional_sample\<close> makes to the noise network are recorded, in order,
  with their arguments: the log is an observation of the run and takes no part in it.
\<close>

datatype net_call =
    Forward_enc tok
  | Forward_dec tok "int list" tok

text \<open>
  The body of \<^verbatim>\<open>for t in self.noise_scheduler.timesteps\<close>: one decoder call on the
  current sample, then the scheduler's step; the next iteration starts from the step's
  \<^verbatim>\<open>prev_sample\<close>. A call that raises ends the loop.
\<close>

fun sample_loop ::
  "torch \<Rightarrow> DiT \<Rightarrow> tok \<Rightarrow> int list \<Rightarrow> tok \<Rightarrow> nat \<Rightarrow> error + (tok \<times> nat \<times> net_call list)" where
  "sample_loop L dit enc_cache [] sample g = Inr (sample, g, [])"
| "sample_loop L dit enc_cache (t # ts) sample g =
     bind_err
       (DiTNoiseNet_forward_dec L (training dit) (noise_net dit) sample
          (replicate (length sample) t) enc_cache)
       (\<lambda>model_output.
          let (sample', g') = scheduler_step L (noise_scheduler dit) g model_output t sample
          in bind_err (sample_loop L dit enc_cache ts sample' g')
               (\<lambda>(final, g'', calls).
                  Inr (final, g'', Forward_dec sample (replicate (length sample) t) enc_cache # calls)))"

text \<open>
  \<^verbatim>\<open>conditional_sample\<close>, with the log of its calls. \<^verbatim>\<open>set_timesteps\<close> overwrites the
  scheduler held by the model, so the model is returned too.
\<close>

definition conditional_sample_trace ::
  "torch \<Rightarrow> DiT \<Rightarrow> nat \<Rightarrow> tok \<Rightarrow> nat \<Rightarrow> error + (tok \<times> DiT \<times> nat \<times> net_call list)" where
  "conditional_sample_trace L dit batch_size global_cond g =
     (if horizon (config dit) < 0 then Inl (RuntimeError ''negative dimension'')
      else
        let (sample, g) = randn L batch_size (nat (horizon (config dit)))
                            (action_feature (config dit)) g;
            dit = dit\<lparr>noise_scheduler :=
                        set_timesteps L (noise_scheduler dit) (dit_num_inference_steps dit)\<rparr>;
            enc_cache = DiTNoiseNet_forward_enc L (training dit) (noise_net dit) global_cond
        in bind_err (sample_loop L dit enc_cache (timesteps (noise_scheduler dit)) sample g)
             (\<lambda>(sample, g, calls). Inr (sample, dit, g, Forward_enc global_cond # calls)))"

definition conditional_sample ::
  "torch \<Rightarrow> DiT \<Rightarrow> nat \<Rightarrow> tok \<Rightarrow> nat \<Rightarrow> error + (tok \<times> DiT \<times> nat)" where
  "conditional_sample L dit batch_size global_cond g =
     bind_err (conditional_sample_trace L dit batch_size global_cond g)
       (\<lambda>(sample, dit, g, calls). Inr (sample, dit, g))"

text \<open>Python's \<^verbatim>\<open>xs[start:stop]\<close>: a negative index counts from the end, and both are clipped.\<close>

definition slice_index :: "nat \<Rightarrow> int \<Rightarrow> nat" where
  "slice_index n i = (if i < 0 then nat (max 0 (int n + i)) else min n (nat i))"

definition py_slice :: "int \<Rightarrow> int \<Rightarrow> 'a list \<Rightarrow> 'a list" where
  "py_slice start stop xs =
     (let s = slice_index (length xs) start; e = slice_index (length xs) stop
      in take (e - s) (drop s xs))"

text \<open>
  \<^verbatim>\<open>generate_actions\<close>. The number of observation steps is \<^verbatim>\<open>shape[1]\<close> of the state,
  which a nested list records in its first row: for an empty batch \<open>shape1\<close> is 0,
  whatever the second dimension of the source's empty tensor is.
\<close>

definition generate_actions ::
  "torch \<Rightarrow> DiT \<Rightarrow> batch \<Rightarrow> nat \<Rightarrow> error + (tok \<times> DiT \<times> nat)" where
  "generate_actions L dit b g =
     bind_err (lookup ''observation.state'' (observation_state b)) (\<lambda>st.
       let batch_size = length st; n_obs = int (shape1 st)
       in if n_obs \<noteq> n_obs_steps (config dit) then Inl AssertionError
          else
            bind_err (prepare_global_conditioning L dit b) (\<lambda>global_cond.
              bind_err (conditional_sample L dit batch_size global_cond g) (\<lambda>(actions, dit, g).
                let start = n_obs - 1;
                    stop = start + n_action_steps (config dit);
                    actions = map (py_slice start stop) actions
                in Inr (actions, dit, g))))"

subsection \<open>The training loss\<close>

definition shape2 :: "tok \<Rightarrow> nat" where
  "shape2 x = (case x of [] \<Rightarrow> 0 | m # _ \<Rightarrow> ncols m)"

text \<open>The choice of the target, by \<^verbatim>\<open>config.prediction_type\<close>.\<close>

definition loss_target :: "string \<Rightarrow> tok \<Rightarrow> tok \<Rightarrow> error + tok" where
  "loss_target ptype eps act =
     (if ptype = ''epsilon'' then Inr eps
      else if ptype = ''sample'' then Inr act
      else Inl (ValueError (''Unsupported prediction type '' @ ptype)))"

text \<open>\<^verbatim>\<open>F.mse_loss(pred, target, reduction="none").mean()\<close>.\<close>

definition mse_loss_mean :: "tok \<Rightarrow> tok \<Rightarrow> real" where
  "mse_loss_mean pred target =
     (let d = concat (concat (map2 (map2 (map2 (\<lambda>p t. (p - t)\<^sup>2))) pred target))
      in sum_list d / real (length d))"

definition compute_loss :: "torch \<Rightarrow> DiT \<Rightarrow> batch \<Rightarrow> nat \<Rightarrow> error + (real \<times> nat)" where
  "compute_loss L dit b g =
     (if observation_state b = None \<or> action b = None \<or> action_is_pad b = None
      then Inl AssertionError
      else if observation_images b = None \<and> observation_environment_state b = None
      then Inl AssertionError
      else
        bind_err (lookup ''observation.state'' (observation_state b)) (\<lambda>st.
          bind_err (lookup ''action'' (action b)) (\<lambda>trajectory.
            let n_obs = int (shape1 st); hor = int (shape1 trajectory)
            in if hor \<noteq> horizon (config dit) then Inl AssertionError
               else if n_obs \<noteq> n_obs_steps (config dit) then Inl AssertionError
               else
                 bind_err (prepare_global_conditioning L dit b) (\<lambda>global_cond.
                   let (eps, g) = randn L (length trajectory) (shape1 trajectory)
                                    (shape2 trajectory) g;
                       high = kw_num_train_timesteps (sched_config (noise_scheduler dit))
                   in if high \<le> 0 then Inl (RuntimeError ''random_ expects from to be less than to'')
                      else
                        let timesteps = map (draw_int L) [g..<g + length trajectory];
                            g = g + length trajectory;
                            noisy_trajectory =
                              add_noise L (noise_scheduler dit) trajectory eps timesteps
                        in bind_err
                             (DiTNoiseNet_forward L (training dit) (noise_net dit)
                                noisy_trajectory timesteps global_cond None)
                             (\<lambda>(cache, pred).
                                bind_err (loss_target (prediction_type (config dit)) eps trajectory)
                                  (\<lambda>target. Inr (mse_loss_mean pred target, g)))))))"

section \<open>The policy\<close>

text \<open>
  One live observation given to \<^verbatim>\<open>select_action\<close>: the state \<open>(B, D)\<close>, optionally the
  environment state, and one \<open>(B, C, H, W)\<close> tensor per camera key. It has no
  \<^verbatim>\<open>"action"\<close> key.
\<close>

record observation =
  obs_state :: "mat option"
  obs_environment_state :: "mat option"
  obs_cameras :: "(string \<times> image list) list"

text \<open>
  The normalisation modules are collaborators outside the file; the policy uses them
  as pure functions.
\<close>

record normalizers =
  normalize_inputs :: "observation \<Rightarrow> observation"
  unnormalize_outputs :: "tok \<Rightarrow> tok"

text \<open>
  The queues of the policy, oldest entry first. The image queue and the environment
  state queue exist only when the configuration has such features.
\<close>

record queues =
  q_state :: "mat list"
  q_images :: "image list list list option"
  q_environment_state :: "mat list option"
  q_action :: "mat list"

record DiTPolicy =
  diffusion :: DiT
  policy_queues :: queues
  generator :: nat

text \<open>\<^verbatim>\<open>reset\<close>: \<^verbatim>\<open>deque(maxlen=n)\<close> raises for a negative \<open>n\<close>.\<close>

definition reset :: "DiTPolicy \<Rightarrow> error + DiTPolicy" where
  "reset p =
     (let cfg = config (diffusion p)
      in if n_obs_steps cfg < 0 \<or> n_action_steps cfg < 0
         then Inl (ValueError ''maxlen must be non-negative'')
         else Inr (p\<lparr>policy_queues :=
                      \<lparr>q_state = [],
                       q_images = (if image_features cfg \<noteq> [] then Some [] else None),
                       q_environment_state =
                         (if env_state_feature cfg \<noteq> None then Some [] else None),
                       q_action = []\<rparr>\<rparr>))"

text \<open>
  Modelled from the spec: \<^verbatim>\<open>populate_queues\<close> of \<^verbatim>\<open>lerobot.common.policies.utils\<close> is
  not among the sources. The specification has it push the observation into each
  observation queue, and, where a queue was empty before the push, back-fill it with
  copies of the new observation up to its capacity. A full bounded queue drops its
  oldest entry. A key of the batch without a queue, and a queue without a key in the
  batch, are left alone.
\<close>

definition push :: "nat \<Rightarrow> 'a list \<Rightarrow> 'a \<Rightarrow> 'a list" where
  "push maxlen q x =
     (if q = [] then replicate maxlen x else drop (length q + 1 - maxlen) (q @ [x]))"

definition push_opt :: "nat \<Rightarrow> 'a list option \<Rightarrow> 'a option \<Rightarrow> 'a list option" where
  "push_opt maxlen q x =
     (case q of None \<Rightarrow> None
      | Some q' \<Rightarrow> (case x of None \<Rightarrow> Some q' | Some x' \<Rightarrow> Some (push maxlen q' x')))"

definition populate_queues ::
  "nat \<Rightarrow> queues \<Rightarrow> observation \<Rightarrow> image list list option \<Rightarrow> queues" where
  "populate_queues n_obs qs b imgs =
     qs\<lparr>q_state := (case obs_state b of None \<Rightarrow> q_state qs | Some x \<Rightarrow> push n_obs (q_state qs) x),
        q_images := push_opt n_obs (q_images qs) imgs,
        q_environment_state :=
          push_opt n_obs (q_environment_state qs) (obs_environment_state b)\<rparr>"

text \<open>
  \<^verbatim>\<open>torch.stack([batch[key] for key in image_features], dim=-4)\<close>: a missing camera key
  raises.
\<close>

primrec camera_images :: "(string \<times> image list) list \<Rightarrow> string list \<Rightarrow> error + image list list" where
  "camera_images cams [] = Inr []"
| "camera_images cams (key # keys) =
     bind_err (lookup key (map_of cams key))
       (\<lambda>x. bind_err (camera_images cams keys) (\<lambda>xs. Inr (x # xs)))"

text \<open>\<^verbatim>\<open>torch.stack(list(queue), dim=1)\<close>; stacking an empty list raises.\<close>

definition stack1 :: "'a list list \<Rightarrow> error + 'a list list" where
  "stack1 q =
     (if q = [] then Inl (RuntimeError ''stack expects a non-empty TensorList'')
      else Inr (swap01 q))"

definition stack1_opt :: "bool \<Rightarrow> 'a list list option \<Rightarrow> error + 'a list list option" where
  "stack1_opt in_batch q =
     (case q of None \<Rightarrow> Inr None
      | Some q' \<Rightarrow> if in_batch then bind_err (stack1 q') (\<lambda>x. Inr (Some x)) else Inr None)"

text \<open>\<^verbatim>\<open>deque.extend\<close> on a bounded queue, and \<^verbatim>\<open>deque.popleft\<close>.\<close>

definition extend :: "nat \<Rightarrow> 'a list \<Rightarrow> 'a list \<Rightarrow> 'a list" where
  "extend maxlen q xs = drop (length (q @ xs) - maxlen) (q @ xs)"

definition popleft :: "'a list \<Rightarrow> error + ('a \<times> 'a list)" where
  "popleft q = (case q of [] \<Rightarrow> Inl IndexError | x # rest \<Rightarrow> Inr (x, rest))"

text \<open>
  \<^verbatim>\<open>select_action\<close>. Besides the action and the policy's new state, the result says
  whether this call took the branch that samples a trajectory and refills the action
  queue.
\<close>

definition select_action ::
  "torch \<Rightarrow> normalizers \<Rightarrow> DiTPolicy \<Rightarrow> observation \<Rightarrow> error + (mat \<times> DiTPolicy \<times> bool)" where
  "select_action L N p obs =
     (let cfg = config (diffusion p);
          b = normalize_inputs N obs
      in bind_err
           (if image_features cfg \<noteq> []
            then bind_err (camera_images (obs_cameras b) (image_features cfg))
                   (\<lambda>per_camera. Inr (Some (swap01 per_camera)))
            else Inr None)
           (\<lambda>imgs.
              let qs = populate_queues (nat (n_obs_steps cfg)) (policy_queues p) b imgs
              in bind_err
                   (if q_action qs = [] then
                      bind_err (stack1_opt (obs_state b \<noteq> None) (Some (q_state qs))) (\<lambda>st.
                        bind_err (stack1_opt (imgs \<noteq> None) (q_images qs)) (\<lambda>im.
                          bind_err (stack1_opt (obs_environment_state b \<noteq> None)
                                      (q_environment_state qs)) (\<lambda>env.
                            bind_err
                              (generate_actions L (diffusion p)
                                 \<lparr>observation_state = st, observation_images = im,
                                  observation_environment_state = env, action = None,
                                  action_is_pad = None\<rparr>
                                 (generator p))
                              (\<lambda>(actions, dit, g).
                                 let actions = unnormalize_outputs N actions
                                 in Inr (p\<lparr>diffusion := dit, generator := g,
                                          policy_queues :=
                                            qs\<lparr>q_action :=
                                                 extend (nat (n_action_steps cfg)) (q_action qs)
                                                   (swap01 actions)\<rparr>\<rparr>, True)))))
                    else Inr (p\<lparr>policy_queues := qs\<rparr>, False))
                   (\<lambda>(p, sampled).
                      bind_err (popleft (q_action (policy_queues p))) (\<lambda>(act, rest).
                        Inr (act, p\<lparr>policy_queues := (policy_queues p)\<lparr>q_action := rest\<rparr>\<rparr>,
                             sampled)))))"

text \<open>Consecutive calls of \<^verbatim>\<open>select_action\<close>: the actions and, per call, whether it sampled.\<close>

fun select_actions ::
  "torch \<Rightarrow> normalizers \<Rightarrow> DiTPolicy \<Rightarrow> observation list \<Rightarrow>
   error + (mat list \<times> bool list \<times> DiTPolicy)" where
  "select_actions L N p [] = Inr ([], [], p)"
| "select_actions L N p (obs # rest) =
     bind_err (select_action L N p obs) (\<lambda>(a, p, sampled).
       bind_err (select_actions L N p rest) (\<lambda>(as, flags, p).
         Inr (a # as, sampled # flags, p)))"

section \<open>Shapes\<close>

text \<open>
  The shape of a tensor, as a predicate: \<open>has_shape3 T B D x\<close> says that \<open>x\<close> is
  \<open>(T, B, D)\<close>. \<open>Linear_out d l\<close> says that the layer has \<open>d\<close> output features.
  \<open>shape_preserving\<close> is what the theorems on the decoder ask of the library: layer
  normalisation and self-attention return a tensor of the shape of their input.
\<close>

definition has_shape2 :: "nat \<Rightarrow> nat \<Rightarrow> mat \<Rightarrow> bool" where
  "has_shape2 B D m = (length m = B \<and> (\<forall>v\<in>set m. length v = D))"

definition has_shape3 :: "nat \<Rightarrow> nat \<Rightarrow> nat \<Rightarrow> tok \<Rightarrow> bool" where
  "has_shape3 T B D x = (length x = T \<and> (\<forall>m\<in>set x. has_shape2 B D m))"

definition Linear_out :: "nat \<Rightarrow> Linear \<Rightarrow> bool" where
  "Linear_out d l = (length (weight l) = d \<and> length (bias l) = d)"

definition zero_Linear :: "nat \<Rightarrow> Linear" where
  "zero_Linear d = \<lparr>weight = replicate d (replicate d 0), bias = replicate d 0\<rparr>"

text \<open>
  A decoder layer whose modulations and second feed-forward layer produce vectors of the
  model dimension; one whose two zero-scale modulations hold only zeros; and one as
  \<^verbatim>\<open>__init__\<close> leaves it, before \<^verbatim>\<open>reset_parameters\<close>.
\<close>

definition wf_decoder_layer :: "nat \<Rightarrow> DiTDecoderLayer \<Rightarrow> bool" where
  "wf_decoder_layer D l =
     (Linear_out D (ss_scale (attn_mod1 l)) \<and> Linear_out D (ss_shift (attn_mod1 l))
      \<and> Linear_out D (ss_scale (mlp_mod1 l)) \<and> Linear_out D (ss_shift (mlp_mod1 l))
      \<and> Linear_out D (dl_linear2 l))"

definition zero_modulated :: "nat \<Rightarrow> DiTDecoderLayer \<Rightarrow> bool" where
  "zero_modulated D l =
     (attn_mod2 l = \<lparr>zs_scale = zero_Linear D\<rparr> \<and> mlp_mod2 l = \<lparr>zs_scale = zero_Linear D\<rparr>)"

definition shape_preserving :: "torch \<Rightarrow> nat \<Rightarrow> nat \<Rightarrow> nat \<Rightarrow> bool" where
  "shape_preserving L T B D =
     ((\<forall>ln y. has_shape3 T B D y \<longrightarrow> has_shape3 T B D (layer_norm L ln y))
      \<and> (\<forall>a tr q. has_shape3 T B D q \<longrightarrow> has_shape3 T B D (mha_forward L a tr q q q)))"

definition raw_decoder_layer :: "nat \<Rightarrow> DiTDecoderLayer \<Rightarrow> bool" where
  "raw_decoder_layer D l =
     (wf_decoder_layer D l
      \<and> Linear_out D (zs_scale (attn_mod2 l)) \<and> ncols (weight (zs_scale (attn_mod2 l))) = D
      \<and> Linear_out D (zs_scale (mlp_mod2 l)) \<and> ncols (weight (zs_scale (mlp_mod2 l))) = D)"

section \<open>The positional encoding, as specified and as coded\<close>

text \<open>
  The conditioning encoder as the specification words it: the positional encoding is
  added to the tokens once, before the layers, and the layers are given none. It is
  compared with \<open>DiTNoiseNet_forward_enc\<close> below.
\<close>

definition forward_enc_as_claimed :: "torch \<Rightarrow> bool \<Rightarrow> DiTNoiseNet \<Rightarrow> tok \<Rightarrow> tok" where
  "forward_enc_as_claimed L tr net global_cond =
     (let global_cond = swap01 global_cond;
          pos = PositionalEncoding_forward (enc_pos net) global_cond
      in DiTEncoder_forward L tr (encoder net) (tadd global_cond pos) None)"

text \<open>
  The library with the self-attention changed to add \<open>pos\<close> to its queries and keys;
  every other function is the library's own.
\<close>

definition attend_with_pos :: "torch \<Rightarrow> tok \<Rightarrow> torch" where
  "attend_with_pos L pos =
     L\<lparr>mha_forward := \<lambda>a tr q k v. mha_forward L a tr (tadd q pos) (tadd k pos) v\<rparr>"

section \<open>Reading the log of calls\<close>




text \<open>
  What the slice of the sampled trajectory asks of the scheduler: the \<^verbatim>\<open>prev_sample\<close> of a
  step has, for every batch element, as many time steps as the sample it was given.
\<close>

definition step_keeps_shape :: "torch \<Rightarrow> bool" where
  "step_keeps_shape L =
     (\<forall>sch g out t s. map length (fst (scheduler_step L sch g out t s)) = map length s)"

text \<open>
  The calls, counted from zero, that sampled; and what the refill asks of the
  unnormalisation: it returns a tensor of the shape of its argument.
\<close>

definition refill_steps :: "bool list \<Rightarrow> nat list" where
  "refill_steps flags = filter (\<lambda>i. flags ! i) [0..<length flags]"

definition unnormalize_keeps_shape :: "normalizers \<Rightarrow> bool" where
  "unnormalize_keeps_shape N = (\<forall>a. map length (unnormalize_outputs N a) = map length a)"

section \<open>Concrete instances\<close>

text \<open>
  A small instance of the library and of the model, on which the theorems below are
  exercised: one encoder layer, one decoder layer, model dimension 1, action
  dimension 1.
\<close>

definition L0 :: torch where
  "L0 = \<lparr>mha_forward = (\<lambda>a tr q k v. v),
          layer_norm = (\<lambda>ln x. x),
          silu = (\<lambda>x. x),
          activation_forward = (\<lambda>a v. v),
          dropout_train = (\<lambda>p x. x),
          resnet_forward = (\<lambda>a n tr imgs. map (\<lambda>i. [0]) imgs),
          set_timesteps = (\<lambda>s n. s\<lparr>timesteps := rev (map int [0..<nat n])\<rparr>),
          scheduler_step = (\<lambda>s g out t x. (map (map (map (\<lambda>v. v / 2))) x, g)),
          add_noise = (\<lambda>s x e ts. tadd x e),
          t_sin = (\<lambda>x. 0), t_cos = (\<lambda>x. 1), t_exp = (\<lambda>x. 1), t_log = (\<lambda>x. 1),
          t_nan = 0,
          draw = (\<lambda>k. 1),
          draw_normal = (\<lambda>k. real k),
          draw_int = (\<lambda>k. 0)\<rparr>"

definition cfg0 :: DiTConfig where
  "cfg0 = \<lparr>n_obs_steps = 2, horizon = 8, n_action_steps = 4, dim_model = 1, n_heads = 1,
           n_encoder_layers = 1, dim_feedforward = 1, time_dim = 2, dropout = 0,
           feedforward_activation = ''gelu'', noise_scheduler_type = ''DDPM'',
           num_train_timesteps = 3, beta_start = 0, beta_end = 1, beta_schedule = ''linear'',
           clip_sample = False, prediction_type = ''epsilon'', num_inference_steps = Some 2,
           vision_backbone_norm_name = ''group_norm'', vision_backbone_norm_num_groups = 1,
           vision_backbone_size = 18, pretrained_backbone_weights = None, avg_pool = True,
           use_separate_rgb_encoder_per_camera = False, image_features = [],
           robot_state_feature = Some 1, env_state_feature = None, action_feature = 1\<rparr>"

definition lin1 :: Linear where
  "lin1 = \<lparr>weight = [[1]], bias = [0]\<rparr>"

definition lin_zero :: Linear where
  "lin_zero = \<lparr>weight = [[0]], bias = [0]\<rparr>"

definition mha0 :: MultiheadAttention where
  "mha0 = \<lparr>num_heads = 1, attn_dropout = 0, in_proj_weight = [[1], [1], [1]],
           in_proj_bias = [0, 0, 0], out_proj = lin1\<rparr>"

definition dec_layer0 :: DiTDecoderLayer where
  "dec_layer0 =
     \<lparr>dl_self_attn = mha0, dl_linear1 = lin1, dl_linear2 = lin1,
      dl_norm1 = new_LayerNorm 1, dl_norm2 = new_LayerNorm 1, dl_dropout = 0,
      dl_activation = GELU_tanh,
      attn_mod1 = \<lparr>ss_scale = lin1, ss_shift = lin1\<rparr>, attn_mod2 = \<lparr>zs_scale = lin_zero\<rparr>,
      mlp_mod1 = \<lparr>ss_scale = lin1, ss_shift = lin1\<rparr>, mlp_mod2 = \<lparr>zs_scale = lin_zero\<rparr>\<rparr>"

definition enc_layer0 :: DiTEncoderLayer where
  "enc_layer0 =
     \<lparr>el_self_attn = mha0, el_linear1 = lin1, el_linear2 = lin1,
      el_norm1 = new_LayerNorm 1, el_norm2 = new_LayerNorm 1, el_dropout = 0,
      el_activation = GELU_tanh\<rparr>"

definition net0 :: DiTNoiseNet where
  "net0 =
     \<lparr>enc_pos = [[0], [1], [2], [3]],
      dec_pos = [[1], [1], [1], [1], [1], [1], [1], [1]],
      time_net = \<lparr>tn_w = [1], out_net0 = \<lparr>weight = [[1, 1]], bias = [0]\<rparr>, out_net2 = lin1\<rparr>,
      ac_proj0 = lin1, ac_proj2 = lin1,
      encoder = [enc_layer0], decoder = [dec_layer0],
      eps_out = \<lparr>fl_linear = lin1, adaLN_modulation = \<lparr>weight = [[1], [1]], bias = [0, 0]\<rparr>\<rparr>\<rparr>"

definition dit0 :: DiT where
  "dit0 =
     \<lparr>config = cfg0, training = False, robot_state_encoder = Some lin1, rgb_encoder = None,
      env_state_encoder = None, noise_net = net0,
      noise_scheduler = new_scheduler DDPMScheduler
        \<lparr>kw_num_train_timesteps = 3, kw_beta_start = 0, kw_beta_end = 1,
         kw_beta_schedule = ''linear'', kw_clip_sample = False,
         kw_prediction_type = ''epsilon''\<rparr> [],
      dit_num_inference_steps = 2\<rparr>"

definition batch0 :: batch where
  "batch0 =
     \<lparr>observation_state = Some [[[1], [2]]], observation_images = None,
      observation_environment_state = Some [[[0], [0]]],
      action = Some [[[0], [1], [2], [3], [4], [5], [6], [7]]],
      action_is_pad = Some [[False, False, False, False, False, False, True, True]]\<rparr>"

text \<open>A configuration with an even model dimension, as the positional encoding needs.\<close>

definition cfg_even :: DiTConfig where
  "cfg_even = cfg0\<lparr>dim_model := 2\<rparr>"

text \<open>A cache of two tokens for a batch of two, and a network for a horizon of one step.\<close>

definition cache1 :: tok where
  "cache1 = [[[0], [0]], [[2], [4]]]"

definition net1 :: DiTNoiseNet where
  "net1 = net0\<lparr>dec_pos := [[1]]\<rparr>"

text \<open>A policy on the small model, as \<^verbatim>\<open>reset\<close> leaves it, and an observation of one state.\<close>

definition N0 :: normalizers where
  "N0 = \<lparr>normalize_inputs = (\<lambda>b. b), unnormalize_outputs = (\<lambda>a. map (map (map (\<lambda>v. 2 * v))) a)\<rparr>"

definition policy0 :: DiTPolicy where
  "policy0 =
     \<lparr>diffusion = dit0,
      policy_queues = \<lparr>q_state = [], q_images = None, q_environment_state = None, q_action = []\<rparr>,
      generator = 0\<rparr>"

definition obs0 :: "real \<Rightarrow> observation" where
  "obs0 v = \<lparr>obs_state = Some [[v]], obs_environment_state = None, obs_cameras = []\<rparr>"






section \<open>The decoder layer with PyTorch's shape checks\<close>

text \<open>
  The operations above pair entries and cut to the shorter operand. PyTorch checks
  shapes: an elementwise operation broadcasts an axis of length one over the other
  operand's and raises when two axes differ otherwise, and a linear layer raises on an
  input with another number of features than its weight has columns. Here the decoder
  layer is written with these checks, each statement of the source in its order.
\<close>

definition size_mismatch :: error where
  "size_mismatch = RuntimeError ''The size of tensor a must match the size of tensor b''"

primrec all_ok :: "(error + 'a) list \<Rightarrow> error + 'a list" where
  "all_ok [] = Inr []"
| "all_ok (r # rs) = bind_err r (\<lambda>y. bind_err (all_ok rs) (\<lambda>ys. Inr (y # ys)))"

definition broadcast :: "('a \<Rightarrow> 'b \<Rightarrow> error + 'c) \<Rightarrow> 'a list \<Rightarrow> 'b list \<Rightarrow> error + 'c list" where
  "broadcast f u v =
     (if length u = length v then all_ok (map2 f u v)
      else if length u = 1 then all_ok (map (f (hd u)) v)
      else if length v = 1 then all_ok (map (\<lambda>a. f a (hd v)) u)
      else Inl size_mismatch)"

definition ew_vec :: "(real \<Rightarrow> real \<Rightarrow> real) \<Rightarrow> vec \<Rightarrow> vec \<Rightarrow> error + vec" where
  "ew_vec f = broadcast (\<lambda>a b. Inr (f a b))"

definition ew_mat :: "(real \<Rightarrow> real \<Rightarrow> real) \<Rightarrow> mat \<Rightarrow> mat \<Rightarrow> error + mat" where
  "ew_mat f = broadcast (ew_vec f)"

definition ew_tok :: "(real \<Rightarrow> real \<Rightarrow> real) \<Rightarrow> tok \<Rightarrow> tok \<Rightarrow> error + tok" where
  "ew_tok f = broadcast (ew_mat f)"

text \<open>\<^verbatim>\<open>nn.Linear.forward\<close> on the last axis: every row of the weight has the input's length.\<close>

definition Linear_vec_checked :: "Linear \<Rightarrow> vec \<Rightarrow> error + vec" where
  "Linear_vec_checked l v =
     (if list_all (\<lambda>row. length row = length v) (weight l) then Inr (Linear_vec l v)
      else Inl (RuntimeError ''mat1 and mat2 shapes cannot be multiplied''))"

definition Linear_mat_checked :: "Linear \<Rightarrow> mat \<Rightarrow> error + mat" where
  "Linear_mat_checked l m = all_ok (map (Linear_vec_checked l) m)"

definition Linear_tok_checked :: "Linear \<Rightarrow> tok \<Rightarrow> error + tok" where
  "Linear_tok_checked l x = all_ok (map (Linear_mat_checked l) x)"

text \<open>\<^verbatim>\<open>x * self.scale(c)[None] + self.shift(c)[None]\<close>, evaluated from the left.\<close>

definition ShiftScaleMod_forward_checked ::
  "torch \<Rightarrow> ShiftScaleMod \<Rightarrow> tok \<Rightarrow> mat \<Rightarrow> error + tok" where
  "ShiftScaleMod_forward_checked L m x c =
     (let c = map (map (silu L)) c
      in bind_err (Linear_mat_checked (ss_scale m) c) (\<lambda>scale.
           bind_err (ew_tok (*) x [scale]) (\<lambda>scaled.
             bind_err (Linear_mat_checked (ss_shift m) c) (\<lambda>shift.
               ew_tok (+) scaled [shift]))))"

definition ZeroScaleMod_forward_checked ::
  "torch \<Rightarrow> ZeroScaleMod \<Rightarrow> tok \<Rightarrow> mat \<Rightarrow> error + tok" where
  "ZeroScaleMod_forward_checked L m x c =
     (let c = map (map (silu L)) c
      in bind_err (Linear_mat_checked (zs_scale m) c) (\<lambda>scale. ew_tok (*) x [scale]))"

text \<open>
  \<^verbatim>\<open>DiTDecoderLayer.forward\<close>. (The mean of an empty cache is NaN in PyTorch and the
  layer returns NaN without raising; \<open>mean0\<close> gives the empty tensor, on which the sum
  with \<open>t\<close> raises here unless \<open>t\<close> has one row.)
\<close>

definition DiTDecoderLayer_forward_checked ::
  "torch \<Rightarrow> bool \<Rightarrow> DiTDecoderLayer \<Rightarrow> tok \<Rightarrow> mat \<Rightarrow> tok \<Rightarrow> error + tok" where
  "DiTDecoderLayer_forward_checked L tr l x t cond =
     (let cond = mean0 cond
      in bind_err (ew_mat (+) cond t) (\<lambda>cond.
           bind_err (ShiftScaleMod_forward_checked L (attn_mod1 l)
                       (layer_norm L (dl_norm1 l) x) cond) (\<lambda>x2.
             let x2 = mha_forward L (dl_self_attn l) tr x2 x2 x2
             in bind_err (ZeroScaleMod_forward_checked L (attn_mod2 l)
                            (Dropout L tr (dl_dropout l) x2) cond) (\<lambda>x2.
                  bind_err (ew_tok (+) x2 x) (\<lambda>x.
                    bind_err (ShiftScaleMod_forward_checked L (mlp_mod1 l)
                                (layer_norm L (dl_norm2 l) x) cond) (\<lambda>x2.
                      bind_err (Linear_tok_checked (dl_linear1 l) x2) (\<lambda>x2.
                        bind_err (Linear_tok_checked (dl_linear2 l)
                                    (Dropout L tr (dl_dropout l)
                                       (map (map (activation_forward L (dl_activation l))) x2)))
                          (\<lambda>x2.
                             bind_err (ZeroScaleMod_forward_checked L (mlp_mod2 l)
                                         (Dropout L tr (dl_dropout l) x2) cond) (\<lambda>x2.
                               ew_tok (+) x x2)))))))))"

primrec DiTDecoder_forward_checked ::
  "torch \<Rightarrow> bool \<Rightarrow> DiTDecoderLayer list \<Rightarrow> tok \<Rightarrow> mat \<Rightarrow> tok \<Rightarrow> error + tok" where
  "DiTDecoder_forward_checked L tr [] x time_embed encoder_out = Inr x"
| "DiTDecoder_forward_checked L tr (layer # layers) x time_embed encoder_out =
     bind_err (DiTDecoderLayer_forward_checked L tr layer x time_embed encoder_out)
       (\<lambda>x. DiTDecoder_forward_checked L tr layers x time_embed encoder_out)"

text \<open>
  What the checks ask of a layer: \<open>Linear_in d l\<close> says that \<open>l\<close> takes \<open>d\<close> input
  features. In a layer that fits, the modulations map the model dimension \<open>D\<close> to itself
  and the feed-forward block maps \<open>D\<close> to \<open>F\<close> and \<open>F\<close> back to \<open>D\<close>. An activation keeps
  the length when it is applied entry by entry, as \<^verbatim>\<open>F.relu\<close> and \<^verbatim>\<open>nn.GELU\<close> are;
  \<^verbatim>\<open>F.glu\<close> halves the last axis.
\<close>

definition Linear_in :: "nat \<Rightarrow> Linear \<Rightarrow> bool" where
  "Linear_in d l = list_all (\<lambda>row. length row = d) (weight l)"

definition fits_decoder_layer :: "nat \<Rightarrow> nat \<Rightarrow> DiTDecoderLayer \<Rightarrow> bool" where
  "fits_decoder_layer D F l =
     (Linear_in D (ss_scale (attn_mod1 l)) \<and> Linear_in D (ss_shift (attn_mod1 l))
      \<and> Linear_in D (ss_scale (mlp_mod1 l)) \<and> Linear_in D (ss_shift (mlp_mod1 l))
      \<and> Linear_in D (dl_linear1 l) \<and> Linear_out F (dl_linear1 l)
      \<and> Linear_in F (dl_linear2 l))"

definition activation_keeps_length :: "torch \<Rightarrow> activation \<Rightarrow> bool" where
  "activation_keeps_length L a = (\<forall>v. length (activation_forward L a v) = length v)"

text \<open>
  A library whose \<^verbatim>\<open>F.glu\<close> halves the last axis (the product of the first half with the
  second stands for the gate), and a configuration that selects it.
\<close>

definition L_glu :: torch where
  "L_glu = L0\<lparr>activation_forward :=
               (\<lambda>a v. case a of
                         F_glu \<Rightarrow> map2 (*) (take (length v div 2) v) (drop (length v div 2) v)
                       | _ \<Rightarrow> v)\<rparr>"

definition cfg_glu :: DiTConfig where
  "cfg_glu = cfg0\<lparr>feedforward_activation := ''glu'', dim_feedforward := 2\<rparr>"

section \<open>Properties\<close>

subsection \<open>Sequencing\<close>

lemma bind_err_Inl [simp]: "bind_err (Inl e) f = Inl e"
  by (simp add: bind_err_def)

lemma bind_err_Inr [simp]: "bind_err (Inr x) f = f x"
  by (simp add: bind_err_def)

subsection \<open>Constructors that raise\<close>





subsection \<open>Zero tensors\<close>

lemma vadd_zero_right: "length z = length v \<Longrightarrow> \<forall>e\<in>set z. e = 0 \<Longrightarrow> vadd v z = v"
  unfolding vadd_def
  by (induction v z rule: list_induct2') auto

lemma vadd_zero_left: "length z = length v \<Longrightarrow> \<forall>e\<in>set z. e = 0 \<Longrightarrow> vadd z v = v"
  unfolding vadd_def
  by (induction z v rule: list_induct2') auto

lemma vmul_zero: "vmul v (replicate (length v) 0) = replicate (length v) 0"
  unfolding vmul_def
  by (induction v) auto

lemma dot_zero: "dot (replicate n 0) v = 0"
  unfolding dot_def
  by (induction n arbitrary: v) (auto simp: zip_Cons1 split: list.splits)

lemma Linear_vec_zero:
  "Linear_vec \<lparr>weight = replicate d (replicate k 0), bias = replicate d 0\<rparr> v = replicate d 0"
  unfolding Linear_vec_def
  by (induction d) (auto simp: dot_zero)

lemma Linear_mat_zero:
  "Linear_mat \<lparr>weight = replicate d (replicate k 0), bias = replicate d 0\<rparr> c
     = replicate (length c) (replicate d 0)"
  unfolding Linear_mat_def
  by (induction c) (auto simp: Linear_vec_zero)

lemma mmul_zero:
  "has_shape2 B D m \<Longrightarrow> mmul m (replicate B (replicate D 0)) = replicate B (replicate D 0)"
  unfolding mmul_def has_shape2_def
proof (induction m arbitrary: B)
  case Nil then show ?case by simp
next
  case (Cons v m)
  then obtain B' where B: "B = Suc B'" by (cases B) auto
  from Cons.prems have "vmul v (replicate D 0) = replicate D 0"
    using vmul_zero[of v] by auto
  with Cons B show ?case by auto
qed

lemma bmul_zero:
  "has_shape3 T B D x \<Longrightarrow>
   bmul x (replicate B (replicate D 0)) = replicate T (replicate B (replicate D 0))"
  unfolding bmul_def has_shape3_def
  by (induction x arbitrary: T) (auto simp: mmul_zero)

lemma madd_zero_right:
  "has_shape2 B D m \<Longrightarrow> madd m (replicate B (replicate D 0)) = m"
  unfolding madd_def has_shape2_def
proof (induction m arbitrary: B)
  case Nil then show ?case by simp
next
  case (Cons v m)
  then obtain B' where B: "B = Suc B'" by (cases B) auto
  from Cons.prems have "vadd v (replicate D 0) = v"
    by (intro vadd_zero_right) auto
  with Cons B show ?case by auto
qed

lemma madd_zero_left:
  "has_shape2 B D m \<Longrightarrow> madd (replicate B (replicate D 0)) m = m"
  unfolding madd_def has_shape2_def
proof (induction m arbitrary: B)
  case Nil then show ?case by simp
next
  case (Cons v m)
  then obtain B' where B: "B = Suc B'" by (cases B) auto
  from Cons.prems have "vadd (replicate D 0) v = v"
    by (intro vadd_zero_left) auto
  with Cons B show ?case by auto
qed

lemma tadd_zero_right:
  "has_shape3 T B D x \<Longrightarrow> tadd x (replicate T (replicate B (replicate D 0))) = x"
  unfolding tadd_def has_shape3_def
  by (induction x arbitrary: T) (auto simp: madd_zero_right)

lemma tadd_zero_left:
  "has_shape3 T B D x \<Longrightarrow> tadd (replicate T (replicate B (replicate D 0))) x = x"
  unfolding tadd_def has_shape3_def
  by (induction x arbitrary: T) (auto simp: madd_zero_left)

subsection \<open>Shapes through the decoder layer\<close>

lemma has_shape2_madd:
  "has_shape2 B D a \<Longrightarrow> has_shape2 B D b \<Longrightarrow> has_shape2 B D (madd a b)"
  unfolding has_shape2_def madd_def vadd_def
  by (auto simp: set_zip)

lemma has_shape2_foldl_madd:
  "has_shape2 B D m \<Longrightarrow> \<forall>a\<in>set ms. has_shape2 B D a \<Longrightarrow> has_shape2 B D (foldl madd m ms)"
  by (induction ms arbitrary: m) (auto simp: has_shape2_madd)

lemma has_shape2_mean0:
  assumes "has_shape3 Tc B D cond" "0 < Tc"
  shows "has_shape2 B D (mean0 cond)"
proof -
  from assms obtain m ms where c: "cond = m # ms" by (cases cond) (auto simp: has_shape3_def)
  with assms have "has_shape2 B D (foldl madd m ms)"
    by (intro has_shape2_foldl_madd) (auto simp: has_shape3_def)
  then show ?thesis
    by (auto simp: mean0_def c has_shape2_def)
qed

lemma length_Linear_vec: "Linear_out d l \<Longrightarrow> length (Linear_vec l v) = d"
  by (simp add: Linear_vec_def Linear_out_def)

lemma has_shape2_Linear_mat:
  "Linear_out d l \<Longrightarrow> length c = B \<Longrightarrow> has_shape2 B d (Linear_mat l c)"
  by (auto simp: has_shape2_def Linear_mat_def length_Linear_vec)

lemma has_shape2_map_map: "has_shape2 B D c \<Longrightarrow> has_shape2 B D (map (map f) c)"
  by (auto simp: has_shape2_def)

lemma has_shape2_mmul:
  "has_shape2 B D a \<Longrightarrow> has_shape2 B D b \<Longrightarrow> has_shape2 B D (mmul a b)"
  unfolding has_shape2_def mmul_def vmul_def
  by (auto simp: set_zip)

lemma has_shape3_bmul:
  "has_shape3 T B D x \<Longrightarrow> has_shape2 B D m \<Longrightarrow> has_shape3 T B D (bmul x m)"
  by (auto simp: has_shape3_def bmul_def has_shape2_mmul)

lemma has_shape3_badd:
  "has_shape3 T B D x \<Longrightarrow> has_shape2 B D m \<Longrightarrow> has_shape3 T B D (badd x m)"
  by (auto simp: has_shape3_def badd_def has_shape2_madd)

lemma has_shape3_ShiftScaleMod:
  assumes "has_shape3 T B D x" "has_shape2 B D c"
    and "Linear_out D (ss_scale m)" "Linear_out D (ss_shift m)"
  shows "has_shape3 T B D (ShiftScaleMod_forward L m x c)"
proof -
  have len: "length (map (map (silu L)) c) = B"
    using assms(2) by (simp add: has_shape2_def)
  show ?thesis
    unfolding ShiftScaleMod_forward_def Let_def
    by (intro has_shape3_badd has_shape3_bmul has_shape2_Linear_mat assms len)
qed

lemma ZeroScaleMod_forward_zero:
  assumes "has_shape3 T B D x" "length c = B"
  shows "ZeroScaleMod_forward L \<lparr>zs_scale = zero_Linear D\<rparr> x c
         = replicate T (replicate B (replicate D 0))"
  using assms
  by (simp add: ZeroScaleMod_forward_def zero_Linear_def Linear_mat_zero bmul_zero)

lemma has_shape3_Linear_tok:
  assumes "Linear_out d l" "length y = T" "\<forall>m\<in>set y. length m = B"
  shows "has_shape3 T B d (Linear_tok l y)"
  using assms
  by (auto simp: has_shape3_def Linear_tok_def intro!: has_shape2_Linear_mat)

subsection \<open>Parameters after construction\<close>

lemma length_draw_vec [simp]: "length (fst (draw_vec L n g)) = n"
  by (simp add: draw_vec_def)

lemma length_draw_mat [simp]: "length (fst (draw_mat L r c g)) = r"
  by (simp add: draw_mat_def)

lemma ncols_draw_mat_square [simp]: "ncols (fst (draw_mat L d d g)) = d"
proof (cases d)
  case 0
  then show ?thesis by (simp add: draw_mat_def ncols_def)
next
  case (Suc n)
  have "[0..<Suc n] = 0 # [Suc 0..<Suc n]" by (simp add: upt_conv_Cons)
  then show ?thesis
    unfolding draw_mat_def ncols_def Suc by (simp del: upt_Suc)
qed

lemma zeros_mat_draw_mat [simp]:
  "zeros_mat (fst (draw_mat L r c g)) = replicate r (replicate c 0)"
  by (simp add: draw_mat_def zeros_mat_def zeros_vec_def map_replicate_const comp_def)

lemma zeros_vec_replicate: "zeros_vec v = replicate (length v) 0"
  by (simp add: zeros_vec_def map_replicate_const)

lemma new_Linear_shape:
  "length (weight (fst (new_Linear L i d g))) = d"
  "length (bias (fst (new_Linear L i d g))) = d"
  "ncols (weight (fst (new_Linear L d d g))) = d"
  by (simp_all add: new_Linear_def split_def Let_def)

lemma xavier_Linear_shape:
  "length (weight (fst (xavier_Linear L l g))) = length (weight l)"
  "bias (fst (xavier_Linear L l g)) = bias l"
  "zeros_mat (weight (fst (xavier_Linear L l g))) = replicate (length (weight l)) (replicate (ncols (weight l)) 0)"
  by (simp_all add: xavier_Linear_def xavier_uniform_def split_def Let_def)

lemma Linear_out_new_Linear: "Linear_out d (fst (new_Linear L i d g))"
  by (simp add: Linear_out_def new_Linear_shape)

lemma new_ShiftScaleMod_shape:
  "Linear_out d (ss_scale (fst (new_ShiftScaleMod L d g)))"
  "Linear_out d (ss_shift (fst (new_ShiftScaleMod L d g)))"
  by (simp_all add: new_ShiftScaleMod_def Linear_out_def new_Linear_shape split_def Let_def)

lemma new_ZeroScaleMod_shape:
  "Linear_out d (zs_scale (fst (new_ZeroScaleMod L d g)))"
  "ncols (weight (zs_scale (fst (new_ZeroScaleMod L d g)))) = d"
  by (simp_all add: new_ZeroScaleMod_def Linear_out_def new_Linear_shape split_def Let_def)

lemma DiTDecoderLayer_init_raw:
  assumes "DiTDecoderLayer_init L cfg g = Inr (l, g')"
  shows "raw_decoder_layer (dim_model cfg) l"
proof (cases "get_activation_fn (feedforward_activation cfg)")
  case (Inl e)
  with assms show ?thesis
    by (simp add: DiTDecoderLayer_init_def split_def Let_def)
next
  case (Inr act)
  with assms have l: "l = fst (projr (DiTDecoderLayer_init L cfg g))" by simp
  show ?thesis
    unfolding l raw_decoder_layer_def wf_decoder_layer_def
    by (simp add: DiTDecoderLayer_init_def Inr split_def Let_def new_ShiftScaleMod_shape
          new_ZeroScaleMod_shape Linear_out_new_Linear)
qed

lemma ZeroScaleMod_reset_xavier:
  assumes "Linear_out D l" "ncols (weight l) = D"
  shows "ZeroScaleMod_reset_parameters \<lparr>zs_scale = fst (xavier_Linear L l g)\<rparr>
         = \<lparr>zs_scale = zero_Linear D\<rparr>"
  using assms
  by (simp add: ZeroScaleMod_reset_parameters_def xavier_Linear_shape zero_Linear_def
        zeros_vec_replicate Linear_out_def)

lemma ShiftScaleMod_reset_xavier:
  assumes "Linear_out D sc" "Linear_out D sh"
  shows "Linear_out D (ss_scale (fst (ShiftScaleMod_reset_parameters L
            \<lparr>ss_scale = fst (xavier_Linear L sc g1), ss_shift = fst (xavier_Linear L sh g2)\<rparr> g3)))"
    and "Linear_out D (ss_shift (fst (ShiftScaleMod_reset_parameters L
            \<lparr>ss_scale = fst (xavier_Linear L sc g1), ss_shift = fst (xavier_Linear L sh g2)\<rparr> g3)))"
  using assms
  by (simp_all add: ShiftScaleMod_reset_parameters_def xavier_uniform_def xavier_Linear_shape
        Linear_out_def zeros_vec_replicate split_def Let_def)

lemma Linear_out_xavier: "Linear_out D l \<Longrightarrow> Linear_out D (fst (xavier_Linear L l g))"
  by (simp add: Linear_out_def xavier_Linear_shape)

lemma DiTDecoderLayer_reset_parameters_zero:
  assumes "raw_decoder_layer D l"
  shows "zero_modulated D (fst (DiTDecoderLayer_reset_parameters L l g))"
    and "wf_decoder_layer D (fst (DiTDecoderLayer_reset_parameters L l g))"
  using assms
  unfolding raw_decoder_layer_def wf_decoder_layer_def zero_modulated_def
  by (simp_all add: DiTDecoderLayer_reset_parameters_def split_def Let_def
        ZeroScaleMod_reset_xavier ShiftScaleMod_reset_xavier Linear_out_xavier)

lemma init_layers_all:
  assumes "\<And>g l g1. mk g = Inr (l, g1) \<Longrightarrow> P l"
    and "init_layers mk n g = Inr (ls, g')"
  shows "\<forall>l\<in>set ls. P l"
  using assms(2)
proof (induction n arbitrary: g ls g')
  case 0
  then show ?case by simp
next
  case (Suc n)
  then show ?case
    by (auto simp: bind_err_def split: sum.splits prod.splits dest: assms(1))
qed

lemma reset_layers_all:
  assumes "\<And>l g. P l \<Longrightarrow> Q (fst (rs l g))"
    and "\<forall>l\<in>set ls. P l"
  shows "\<forall>l\<in>set (fst (reset_layers rs ls g)). Q l"
  using assms(2)
proof (induction ls arbitrary: g)
  case Nil
  then show ?case by simp
next
  case (Cons l ls)
  have "Q (fst (rs l g))" using Cons.prems assms(1) by simp
  moreover have "\<forall>l\<in>set (fst (reset_layers rs ls (snd (rs l g)))). Q l"
    using Cons by simp
  ultimately show ?case
    by (simp add: split_def Let_def)
qed

lemma DiTDecoder_init_layers:
  assumes "DiTDecoder_init L cfg g = Inr (layers, g')"
  shows "\<forall>l\<in>set layers. zero_modulated (dim_model cfg) l \<and> wf_decoder_layer (dim_model cfg) l"
proof -
  from assms obtain raw g1 where
    raw: "init_layers (DiTDecoderLayer_init L cfg) (n_encoder_layers cfg) g = Inr (raw, g1)"
    and layers: "layers = fst (reset_layers (DiTDecoderLayer_reset_parameters L) raw g1)"
    by (auto simp: DiTDecoder_init_def bind_err_def split: sum.splits prod.splits)
  have "\<forall>l\<in>set raw. raw_decoder_layer (dim_model cfg) l"
    using raw by (rule init_layers_all[rotated]) (rule DiTDecoderLayer_init_raw)
  then show ?thesis
    unfolding layers
    by (rule reset_layers_all[rotated]) (simp add: DiTDecoderLayer_reset_parameters_zero)
qed

lemma init_layers_Inr:
  assumes "\<And>g. \<exists>r. mk g = Inr r"
  shows "\<exists>ls g'. init_layers mk n g = Inr (ls, g') \<and> length ls = n"
proof (induction n arbitrary: g)
  case 0
  then show ?case by simp
next
  case (Suc n)
  from assms obtain l g1 where 1: "mk g = Inr (l, g1)" by (metis surj_pair)
  from Suc obtain ls g2 where 2: "init_layers mk n g1 = Inr (ls, g2)" "length ls = n" by blast
  show ?case by (simp add: 1 2)
qed

lemma length_reset_layers: "length (fst (reset_layers rs ls g)) = length ls"
  by (induction ls arbitrary: g) (simp_all add: split_def Let_def)

lemma DiTDecoder_init_Inr:
  assumes "get_activation_fn (feedforward_activation cfg) = Inr a"
  shows "\<exists>layers g'. DiTDecoder_init L cfg g = Inr (layers, g')
           \<and> length layers = n_encoder_layers cfg"
proof -
  have "\<And>g. \<exists>r. DiTDecoderLayer_init L cfg g = Inr r"
    by (simp add: DiTDecoderLayer_init_def assms split_def Let_def)
  from init_layers_Inr[of "DiTDecoderLayer_init L cfg" "n_encoder_layers cfg" g, OF this]
  obtain ls g1 where
    "init_layers (DiTDecoderLayer_init L cfg) (n_encoder_layers cfg) g = Inr (ls, g1)"
    "length ls = n_encoder_layers cfg" by blast
  then show ?thesis
    using length_reset_layers[of "DiTDecoderLayer_reset_parameters L" ls g1]
    by (cases "reset_layers (DiTDecoderLayer_reset_parameters L) ls g1")
       (simp add: DiTDecoder_init_def)
qed

lemma shape_preserving_L0: "shape_preserving L0 T B D"
  by (simp add: shape_preserving_def L0_def)

subsection \<open>The output head\<close>

lemma DiTEncoder_init_Inr:
  assumes "get_activation_fn (feedforward_activation cfg) = Inr a"
  shows "\<exists>layers g'. DiTEncoder_init L cfg g = Inr (layers, g')"
proof -
  have "\<And>g. \<exists>r. DiTEncoderLayer_init L cfg g = Inr r"
    by (simp add: DiTEncoderLayer_init_def assms split_def Let_def)
  from init_layers_Inr[of "DiTEncoderLayer_init L cfg" "n_encoder_layers cfg" g, OF this]
  obtain ls g1 where
    "init_layers (DiTEncoderLayer_init L cfg) (n_encoder_layers cfg) g = Inr (ls, g1)" by blast
  then show ?thesis
    by (cases "reset_layers (DiTEncoderLayer_reset_parameters L) ls g1")
       (simp add: DiTEncoder_init_def)
qed

lemma DiTNoiseNet_init_eps_out:
  assumes "DiTNoiseNet_init L cfg g = Inr (net, g')"
  shows "\<exists>k. eps_out net = fst (FinalLayer_init L (dim_model cfg) (action_feature cfg) k)"
  using assms
  unfolding DiTNoiseNet_init_def
  by (auto simp: bind_err_def split_def Let_def split: sum.splits if_splits)

lemma DiTNoiseNet_init_Inr:
  assumes "even (dim_model cfg)" "0 \<le> horizon cfg" "even (time_dim cfg)" "0 \<le> time_dim cfg"
    and "get_activation_fn (feedforward_activation cfg) = Inr a"
  shows "\<exists>net g'. DiTNoiseNet_init L cfg g = Inr (net, g')"
proof -
  obtain pe where pe: "PositionalEncoding_init L (dim_model cfg) 5000 = Inr pe"
    using assms(1) by (simp add: PositionalEncoding_init_def)
  define g1 where "g1 = snd (draw_mat L (nat (horizon cfg)) (dim_model cfg) g)"
  obtain tn g2 where tn: "TimeNetwork_init L (time_dim cfg) (dim_model cfg) g1 = Inr (tn, g2)"
    using assms(3,4) by (simp add: TimeNetwork_init_def split_def Let_def)
  define g3 where "g3 = snd (new_Linear L (action_feature cfg) (dim_model cfg)
      (snd (new_Linear L (action_feature cfg) (action_feature cfg) g2)))"
  obtain enc g4 where enc: "DiTEncoder_init L cfg g3 = Inr (enc, g4)"
    using DiTEncoder_init_Inr[OF assms(5)] by blast
  obtain dec g5 where dec: "DiTDecoder_init L cfg g4 = Inr (dec, g5)"
    using DiTDecoder_init_Inr[OF assms(5)] by blast
  show ?thesis
    unfolding DiTNoiseNet_init_def
    using assms(2)
    by (simp add: pe split_def Let_def g1_def[symmetric] tn g3_def[symmetric] enc dec)
qed

lemma FinalLayer_init_L0: 
  "fst (FinalLayer_init L0 2 (Suc 0) k) =
     \<lparr>fl_linear = \<lparr>weight = [[1, 1]], bias = [1]\<rparr>,
      adaLN_modulation = \<lparr>weight = [[1, 1], [1, 1], [1, 1], [1, 1]], bias = [1, 1, 1, 1]\<rparr>\<rparr>"
  by (simp add: FinalLayer_init_def new_Linear_def draw_mat_def draw_vec_def L0_def split_def Let_def
        map_replicate_const numeral_eq_Suc upt_conv_Cons del: upt_Suc)

text \<open>
  C3. \<^verbatim>\<open>DiTNoiseNet.__init__\<close> builds the output head with \<^verbatim>\<open>FinalLayer(...)\<close> and never
  calls its \<^verbatim>\<open>reset_parameters\<close>. With a library whose initial draws are all 1, model
  dimension 2 and action dimension 1, the head of the constructed network holds ones,
  not zeros; \<^verbatim>\<open>reset_parameters\<close>, had it been called, would have set them to zero.
\<close>

theorem output_head_not_zero_after_construction:
  "(case DiTNoiseNet_init L0 cfg_even 0 of
      Inl e \<Rightarrow> False
    | Inr (net, g) \<Rightarrow>
        eps_out net =
          \<lparr>fl_linear = \<lparr>weight = [[1, 1]], bias = [1]\<rparr>,
           adaLN_modulation =
             \<lparr>weight = [[1, 1], [1, 1], [1, 1], [1, 1]], bias = [1, 1, 1, 1]\<rparr>\<rparr>
        \<and> FinalLayer_reset_parameters (eps_out net) =
          \<lparr>fl_linear = \<lparr>weight = [[0, 0]], bias = [0]\<rparr>,
           adaLN_modulation =
             \<lparr>weight = [[0, 0], [0, 0], [0, 0], [0, 0]], bias = [0, 0, 0, 0]\<rparr>\<rparr>)"
proof -
  have "get_activation_fn (feedforward_activation cfg_even) = Inr GELU_tanh"
    by (simp add: cfg_even_def cfg0_def get_activation_fn_def)
  from DiTNoiseNet_init_Inr[OF _ _ _ _ this, of L0 0]
  obtain net g' where init: "DiTNoiseNet_init L0 cfg_even 0 = Inr (net, g')"
    by (auto simp: cfg_even_def cfg0_def)
  from DiTNoiseNet_init_eps_out[OF this] obtain k where
    "eps_out net = fst (FinalLayer_init L0 2 1 k)"
    by (auto simp: cfg_even_def cfg0_def)
  then have "eps_out net =
          \<lparr>fl_linear = \<lparr>weight = [[1, 1]], bias = [1]\<rparr>,
           adaLN_modulation =
             \<lparr>weight = [[1, 1], [1, 1], [1, 1], [1, 1]], bias = [1, 1, 1, 1]\<rparr>\<rparr>"
    by (simp add: FinalLayer_init_L0)
  then show ?thesis
    by (simp add: init FinalLayer_reset_parameters_def zeros_Linear_def zeros_mat_def zeros_vec_def)
qed

text \<open>
  C4. A decoder layer adds the time embedding to the mean of the cache over its token
  axis. \<^verbatim>\<open>forward_dec\<close> hands the head \<^verbatim>\<open>enc_cache[-1]\<close>, the last token, so the head's
  \<^verbatim>\<open>torch.mean(cond, axis=0)\<close> runs over the batch axis of that token. On a cache of two
  tokens for a batch of two the two signals differ, and so does the head's output from
  what it would be on the whole cache.
\<close>

theorem output_head_averages_last_token_over_batch:
  "madd (mean0 cache1) [[1], [1]] = [[2], [3]]
   \<and> FinalLayer_cond (Rank3 cache1) [[1], [1]] = [[2], [3]]
   \<and> FinalLayer_cond (Rank2 (last cache1)) [[1], [1]] = [[4], [4]]
   \<and> TimeNetwork_forward L0 (time_net net1) [0, 0] = [[1], [1]]
   \<and> DiTNoiseNet_forward_dec L0 False net1 [[[1]], [[2]]] [0, 0] cache1
       = Inr (FinalLayer_forward L0 (eps_out net1) [[[2], [3]]] [[1], [1]] (Rank2 (last cache1)))
   \<and> FinalLayer_forward L0 (eps_out net1) [[[2], [3]]] [[1], [1]] (Rank2 (last cache1))
       = [[[12]], [[16]]]
   \<and> FinalLayer_forward L0 (eps_out net1) [[[2], [3]]] [[1], [1]] (Rank3 cache1)
       = [[[6]], [[12]]]"
  by code_simp

subsection \<open>The positional encoding\<close>

lemma DiTEncoderLayer_forward_pos:
  "DiTEncoderLayer_forward L tr l src (Some pos)
     = DiTEncoderLayer_forward (attend_with_pos L pos) tr l src None"
  by (simp add: DiTEncoderLayer_forward_def attend_with_pos_def with_pos_embed_def Dropout_def Let_def)

lemma DiTEncoder_forward_pos:
  "DiTEncoder_forward L tr layers x (Some pos)
     = DiTEncoder_forward (attend_with_pos L pos) tr layers x None"
  unfolding DiTEncoder_forward_def
  by (induction layers arbitrary: x) (simp_all add: DiTEncoderLayer_forward_pos)

text \<open>
  C5, as amended. The positional encoding is computed once, before the layers run, and
  is not added to the tokens that enter the stack. Every layer receives the same
  encoding and adds it to its input only to form the queries and keys of its
  self-attention: the conditioning encoder computes what the stack computes on the bare
  tokens, with no positional argument, when each attention call has the encoding added
  to its queries and keys. The attention values, the residual sums, the norms and the
  feed-forward block see the tokens without it.
\<close>

theorem positional_encoding_only_in_queries_and_keys:
  "DiTNoiseNet_forward_enc L tr net global_cond =
     DiTEncoder_forward
       (attend_with_pos L (PositionalEncoding_forward (enc_pos net) (swap01 global_cond)))
       tr (encoder net) (swap01 global_cond) None
   \<and> mha_forward (attend_with_pos L pos) a tr q k v = mha_forward L a tr (tadd q pos) (tadd k pos) v
   \<and> layer_norm (attend_with_pos L pos) = layer_norm L
   \<and> activation_forward (attend_with_pos L pos) = activation_forward L
   \<and> dropout_train (attend_with_pos L pos) = dropout_train L"
  by (simp add: DiTNoiseNet_forward_enc_def DiTEncoder_forward_pos Let_def attend_with_pos_def)

text \<open>
  C5, as stated, fails: adding the encoding to the tokens once and running the layers
  without it gives another result than the code, here on one batch element with two
  tokens; with no layer at all, the code returns the bare tokens.
\<close>

theorem positional_encoding_not_added_once_counterexample:
  "DiTNoiseNet_forward_enc L0 False net0 [[[1], [2]]] = [[[4]], [[8]]]
   \<and> forward_enc_as_claimed L0 False net0 [[[1], [2]]] = [[[4]], [[12]]]
   \<and> DiTNoiseNet_forward_enc L0 False net0 [[[1], [2]]]
       \<noteq> forward_enc_as_claimed L0 False net0 [[[1], [2]]]
   \<and> DiTNoiseNet_forward_enc L0 False (net0\<lparr>encoder := []\<rparr>) [[[1], [2]]] = [[[1]], [[2]]]
   \<and> forward_enc_as_claimed L0 False (net0\<lparr>encoder := []\<rparr>) [[[1], [2]]] = [[[1]], [[3]]]"
  by code_simp

subsection \<open>The sampling loop\<close>











subsection \<open>The loss and the padding mask\<close>

lemma prepare_global_conditioning_action_is_pad:
  "prepare_global_conditioning L dit (b\<lparr>action_is_pad := p\<rparr>) = prepare_global_conditioning L dit b"
  by (simp add: prepare_global_conditioning_def Let_def cong: if_cong)

text \<open>
  C10. \<^verbatim>\<open>compute_loss\<close> fails its first assertion on a batch without the key
  \<^verbatim>\<open>"action_is_pad"\<close>; on a batch that has the key, the tensor stored under it does not
  enter the result: two batches that differ only there give, from the same state of the
  random generator (the same noise and timesteps), the same loss or the same error.
\<close>

theorem compute_loss_ignores_action_is_pad:
  "compute_loss L dit (b\<lparr>action_is_pad := None\<rparr>) g = Inl AssertionError
   \<and> compute_loss L dit (b\<lparr>action_is_pad := Some p\<rparr>) g
       = compute_loss L dit (b\<lparr>action_is_pad := Some q\<rparr>) g"
  by (simp add: compute_loss_def prepare_global_conditioning_action_is_pad Let_def cong: if_cong)

lemma compute_loss_example:
  "compute_loss L0 dit0 batch0 0 = Inr (15047 / 2, 9)
   \<and> compute_loss L0 dit0 (batch0\<lparr>action_is_pad := Some [[True]]\<rparr>) 0 = Inr (15047 / 2, 9)"
  by code_simp

subsection \<open>The slice of the sampled trajectory\<close>

lemma sample_loop_shape:
  assumes "step_keeps_shape L"
    and "sample_loop L dit c ts s g = Inr (final, g', calls)"
  shows "map length final = map length s"
  using assms(2)
proof (induction ts arbitrary: s g final g' calls)
  case Nil
  then show ?case by simp
next
  case (Cons t ts)
  let ?tt = "replicate (length s) t"
  from Cons.prems obtain out where
    out: "DiTNoiseNet_forward_dec L (training dit) (noise_net dit) s ?tt c = Inr out"
    by (cases "DiTNoiseNet_forward_dec L (training dit) (noise_net dit) s ?tt c") auto
  define s' where "s' = fst (scheduler_step L (noise_scheduler dit) g out t s)"
  define g1 where "g1 = snd (scheduler_step L (noise_scheduler dit) g out t s)"
  from Cons.prems out obtain calls' where
    rec: "sample_loop L dit c ts s' g1 = Inr (final, g', calls')"
    by (cases "sample_loop L dit c ts s' g1")
       (auto simp: s'_def g1_def split_def Let_def)
  have "map length s' = map length s"
    using assms(1) by (simp add: step_keeps_shape_def s'_def)
  with Cons.IH[OF rec] show ?case by simp
qed

lemma randn_shape: "map length (fst (randn L B H A g)) = replicate B H"
  by (simp add: randn_def map_replicate_const comp_def)

lemma conditional_sample_shape:
  assumes "step_keeps_shape L"
    and "conditional_sample L dit B gc g = Inr (sample, dit', g')"
  shows "map length sample = replicate B (nat (horizon (config dit)))
       \<and> config dit' = config dit"
proof -
  from assms(2) obtain calls where
    tr: "conditional_sample_trace L dit B gc g = Inr (sample, dit', g', calls)"
    by (auto simp: conditional_sample_def bind_err_def split: sum.splits)
  then have hor: "0 \<le> horizon (config dit)"
    by (auto simp: conditional_sample_trace_def split: if_splits)
  define sch where "sch = set_timesteps L (noise_scheduler dit) (dit_num_inference_steps dit)"
  define dit1 where "dit1 = dit\<lparr>noise_scheduler := sch\<rparr>"
  define c where "c = DiTNoiseNet_forward_enc L (training dit) (noise_net dit) gc"
  define prior where "prior = randn L B (nat (horizon (config dit))) (action_feature (config dit)) g"
  from tr hor obtain calls' where
    loop: "sample_loop L dit1 c (timesteps sch) (fst prior) (snd prior) = Inr (sample, g', calls')"
    and d: "dit' = dit1"
    unfolding conditional_sample_trace_def
    by (auto simp: split_def Let_def sch_def dit1_def c_def prior_def bind_err_def split: sum.splits)
  from sample_loop_shape[OF assms(1) loop] have "map length sample = map length (fst prior)" .
  then show ?thesis
    by (simp add: prior_def randn_shape d dit1_def)
qed

lemma py_slice_window:
  assumes "0 \<le> start" "0 \<le> n" "start + n \<le> int (length xs)"
  shows "py_slice start (start + n) xs = take (nat n) (drop (nat start) xs)"
    and "length (py_slice start (start + n) xs) = nat n"
proof -
  have s: "slice_index (length xs) start = nat start"
    using assms by (simp add: slice_index_def)
  have e: "slice_index (length xs) (start + n) = nat start + nat n"
    using assms by (simp add: slice_index_def nat_add_distrib)
  show "py_slice start (start + n) xs = take (nat n) (drop (nat start) xs)"
    by (simp add: py_slice_def s e Let_def)
  then show "length (py_slice start (start + n) xs) = nat n"
    using assms by simp
qed


lemma step_keeps_shape_L0: "step_keeps_shape L0"
  by (simp add: step_keeps_shape_def L0_def)


subsection \<open>The action queue\<close>

lemma generate_actions_shape:
  assumes lib: "step_keeps_shape L"
    and pre: "n_action_steps (config dit) \<le> horizon (config dit) - n_obs_steps (config dit) + 1"
    and pos: "1 \<le> n_obs_steps (config dit)" "0 \<le> n_action_steps (config dit)"
    and ga: "generate_actions L dit b g = Inr (actions, dit', g')"
  shows "\<exists>B. 0 < B \<and> map length actions = replicate B (nat (n_action_steps (config dit)))
           \<and> config dit' = config dit"
proof -
  from ga obtain st where st: "observation_state b = Some st"
    by (cases "observation_state b") (auto simp: generate_actions_def lookup_def)
  from ga st have T: "int (shape1 st) = n_obs_steps (config dit)"
    by (auto simp: generate_actions_def lookup_def Let_def split: if_splits)
  with pos have "st \<noteq> []" by (auto simp: shape1_def)
  from ga st T obtain gc where gc: "prepare_global_conditioning L dit b = Inr gc"
    by (cases "prepare_global_conditioning L dit b")
       (auto simp: generate_actions_def lookup_def Let_def)
  from ga st T gc obtain sample where
    cs: "conditional_sample L dit (length st) gc g = Inr (sample, dit', g')"
    and acts': "actions = map (py_slice (n_obs_steps (config dit) - 1)
          (n_obs_steps (config dit) - 1 + n_action_steps (config dit'))) sample"
    by (cases "conditional_sample L dit (length st) gc g")
       (auto simp: generate_actions_def lookup_def Let_def)
  from conditional_sample_shape[OF lib cs]
  have shape: "map length sample = replicate (length st) (nat (horizon (config dit)))"
    and cfg: "config dit' = config dit" by simp_all
  note acts = acts'[unfolded cfg]
  have len: "\<And>a. a \<in> set sample \<Longrightarrow> length a = nat (horizon (config dit))"
  proof -
    fix a assume "a \<in> set sample"
    then have "length a \<in> set (map length sample)" by simp
    then show "length a = nat (horizon (config dit))" unfolding shape by simp
  qed
  have "\<And>a. a \<in> set sample \<Longrightarrow>
      length (py_slice (n_obs_steps (config dit) - 1)
          (n_obs_steps (config dit) - 1 + n_action_steps (config dit)) a)
        = nat (n_action_steps (config dit))"
    using pre pos by (intro py_slice_window) (simp_all add: len)
  then have "map length actions = map (\<lambda>a. nat (n_action_steps (config dit))) sample"
    unfolding acts by (simp cong: map_cong)
  also have "\<dots> = replicate (length sample) (nat (n_action_steps (config dit)))"
    by (simp add: map_replicate_const)
  also have "length sample = length st"
    using arg_cong[OF shape, of length] by simp
  finally show ?thesis
    using \<open>st \<noteq> []\<close> cfg by (intro exI[of _ "length st"]) simp
qed

lemma length_transpose_rect:
  assumes "map length xs = replicate B n" "0 < B"
  shows "length (transpose xs) = n"
proof -
  have "foldr (\<lambda>xs. max (length xs)) xs 0 = foldr max (map length xs) 0"
    by (induction xs) simp_all
  also have "\<dots> = foldr max (replicate B n) 0" by (simp add: assms(1))
  also have "\<dots> = (if B = 0 then 0 else n)"
    by (induction B) (simp_all del: foldr_replicate)
  finally show ?thesis using assms(2) by (simp add: length_transpose)
qed

lemma select_action_pop:
  assumes "q_action (policy_queues p) = a # rest"
    and "select_action L N p obs = Inr (act, p', flag)"
  shows "flag = False \<and> q_action (policy_queues p') = rest
       \<and> config (diffusion p') = config (diffusion p)"
  using assms
  by (auto simp: select_action_def populate_queues_def popleft_def Let_def bind_err_def
      split: sum.splits if_splits)

lemma select_action_refill:
  assumes empty: "q_action (policy_queues p) = []"
    and lib: "step_keeps_shape L" and unn: "unnormalize_keeps_shape N"
    and pre: "n_action_steps (config (diffusion p))
        \<le> horizon (config (diffusion p)) - n_obs_steps (config (diffusion p)) + 1"
    and pos: "1 \<le> n_obs_steps (config (diffusion p))" "0 \<le> n_action_steps (config (diffusion p))"
    and sel: "select_action L N p obs = Inr (act, p', flag)"
  shows "flag = True
       \<and> Suc (length (q_action (policy_queues p'))) = nat (n_action_steps (config (diffusion p)))
       \<and> config (diffusion p') = config (diffusion p)"
proof -
  define cfg where "cfg = config (diffusion p)"
  define b where "b = normalize_inputs N obs"
  from sel obtain imgs where imgs:
    "(if image_features cfg \<noteq> []
      then bind_err (camera_images (obs_cameras b) (image_features cfg))
             (\<lambda>per_camera. Inr (Some (swap01 per_camera)))
      else Inr None) = Inr imgs"
    unfolding select_action_def cfg_def[symmetric] b_def[symmetric] Let_def
    by (auto simp: bind_err_def split: sum.splits)
  define qs where "qs = populate_queues (nat (n_obs_steps cfg)) (policy_queues p) b imgs"
  have qe: "q_action qs = []" by (simp add: qs_def populate_queues_def empty)
  from sel obtain bb actions dit' g' where
    ga: "generate_actions L (diffusion p) bb (generator p) = Inr (actions, dit', g')"
    and pop: "popleft (extend (nat (n_action_steps cfg)) [] (swap01 (unnormalize_outputs N actions)))
              = Inr (act, q_action (policy_queues p'))"
    and flag: "flag = True" and d: "diffusion p' = dit'"
    unfolding select_action_def cfg_def[symmetric] b_def[symmetric] Let_def imgs
    by (auto simp: bind_err_def qs_def[symmetric] qe split: sum.splits prod.splits)
  from generate_actions_shape[OF lib pre pos ga] obtain B where
    B: "0 < B" "map length actions = replicate B (nat (n_action_steps cfg))"
    and c: "config dit' = config (diffusion p)"
    by (auto simp: cfg_def)
  have "map length (unnormalize_outputs N actions) = replicate B (nat (n_action_steps cfg))"
    using unn B by (simp add: unnormalize_keeps_shape_def)
  then have "length (swap01 (unnormalize_outputs N actions)) = nat (n_action_steps cfg)"
    unfolding swap01_def using B(1) by (rule length_transpose_rect)
  then have "length (extend (nat (n_action_steps cfg)) [] (swap01 (unnormalize_outputs N actions)))
      = nat (n_action_steps cfg)"
    by (simp add: extend_def)
  with pop have "Suc (length (q_action (policy_queues p'))) = nat (n_action_steps cfg)"
    by (auto simp: popleft_def split: list.splits)
  with flag c d show ?thesis by (simp add: cfg_def)
qed

lemma select_actions_Cons:
  assumes "select_actions L N p (obs # rest) = Inr (acts, flags, p')"
  obtains a p1 f acts' flags' where
    "select_action L N p obs = Inr (a, p1, f)"
    "select_actions L N p1 rest = Inr (acts', flags', p')"
    "acts = a # acts'" "flags = f # flags'"
  using assms
  by (auto simp: bind_err_def split: sum.splits prod.splits)

lemma select_actions_pops:
  assumes "length (q_action (policy_queues p)) = length os"
    and "select_actions L N p os = Inr (acts, flags, p')"
  shows "flags = replicate (length os) False \<and> length acts = length os
       \<and> q_action (policy_queues p') = []
       \<and> config (diffusion p') = config (diffusion p)"
  using assms
proof (induction os arbitrary: p acts flags)
  case Nil
  then show ?case by simp
next
  case (Cons obs rest)
  from Cons.prems(2) obtain a p1 f acts' flags' where
    sel: "select_action L N p obs = Inr (a, p1, f)"
    and run: "select_actions L N p1 rest = Inr (acts', flags', p')"
    and eq: "acts = a # acts'" "flags = f # flags'"
    by (rule select_actions_Cons)
  from Cons.prems(1) obtain x q where q: "q_action (policy_queues p) = x # q"
    by (cases "q_action (policy_queues p)") auto
  from select_action_pop[OF q sel]
  have f: "f = False" and q1: "q_action (policy_queues p1) = q"
    and c1: "config (diffusion p1) = config (diffusion p)" by simp_all
  have "length (q_action (policy_queues p1)) = length rest"
    using Cons.prems(1) q q1 by simp
  from Cons.IH[OF this run] show ?case
    by (simp add: eq f c1)
qed

lemma reset_queues:
  assumes "reset p = Inr p0"
  shows "q_action (policy_queues p0) = [] \<and> diffusion p0 = diffusion p"
  using assms by (auto simp: reset_def Let_def split: if_splits)

text \<open>
  C8, as amended. A policy with \<open>n_obs_steps = 2\<close>, \<open>horizon = 8\<close> and \<open>n_action_steps = 4\<close>
  is reset and then given five observations. When the scheduler's step and the
  unnormalisation keep the shape of what they are given and the five calls return,
  the first and the fifth call (steps 0 and 4, counted from zero) sample a trajectory
  and refill the action queue, and the three calls between them only pop a queued
  action: the model samples exactly twice.
\<close>

theorem select_action_refills:
  assumes cfg: "n_obs_steps (config (diffusion p)) = 2" "horizon (config (diffusion p)) = 8"
      "n_action_steps (config (diffusion p)) = 4"
    and reset: "reset p = Inr p0"
    and lib: "step_keeps_shape L" and unn: "unnormalize_keeps_shape N"
    and run: "select_actions L N p0 [o0, o1, o2, o3, o4] = Inr (acts, flags, p5)"
  shows "flags = [True, False, False, False, True] \<and> refill_steps flags = [0, 4]
       \<and> length (filter id flags) = 2 \<and> length acts = 5"
proof -
  from reset_queues[OF reset]
  have q0: "q_action (policy_queues p0) = []" and d0: "diffusion p0 = diffusion p" by simp_all
  from run obtain a0 p1 f0 acts1 flags1 where
    sel0: "select_action L N p0 o0 = Inr (a0, p1, f0)"
    and run1: "select_actions L N p1 [o1, o2, o3, o4] = Inr (acts1, flags1, p5)"
    and eq0: "acts = a0 # acts1" "flags = f0 # flags1"
    by (rule select_actions_Cons)
  have pre0: "n_action_steps (config (diffusion p0))
        \<le> horizon (config (diffusion p0)) - n_obs_steps (config (diffusion p0)) + 1"
    "1 \<le> n_obs_steps (config (diffusion p0))" "0 \<le> n_action_steps (config (diffusion p0))"
    by (simp_all add: d0 cfg)
  from select_action_refill[OF q0 lib unn pre0 sel0]
  have f0: "f0 = True" and len1: "length (q_action (policy_queues p1)) = 3"
    and c1: "config (diffusion p1) = config (diffusion p)"
    by (simp_all add: d0 cfg)
  have split: "[o1, o2, o3, o4] = [o1, o2, o3] @ [o4]" by simp
  obtain acts2 flags2 p4 acts3 flags3 where
    run2: "select_actions L N p1 [o1, o2, o3] = Inr (acts2, flags2, p4)"
    and run3: "select_actions L N p4 [o4] = Inr (acts3, flags3, p5)"
    and eq1: "acts1 = acts2 @ acts3" "flags1 = flags2 @ flags3"
    using run1
    by (auto simp: bind_err_def split: sum.splits prod.splits)
  from select_actions_pops[OF _ run2] len1
  have fl2: "flags2 = [False, False, False]" and la2: "length acts2 = 3"
    and q4: "q_action (policy_queues p4) = []"
    and c4: "config (diffusion p4) = config (diffusion p)"
    by (simp_all add: c1 numeral_3_eq_3)
  from run3 obtain a4 p5' f4 where
    sel4: "select_action L N p4 o4 = Inr (a4, p5', f4)"
    and eq4: "acts3 = [a4]" "flags3 = [f4]"
    by (auto simp: bind_err_def split: sum.splits prod.splits)
  have pre4: "n_action_steps (config (diffusion p4))
        \<le> horizon (config (diffusion p4)) - n_obs_steps (config (diffusion p4)) + 1"
    "1 \<le> n_obs_steps (config (diffusion p4))" "0 \<le> n_action_steps (config (diffusion p4))"
    by (simp_all add: c4 cfg)
  from select_action_refill[OF q4 lib unn pre4 sel4]
  have f4: "f4 = True" by simp
  have fl: "flags = [True, False, False, False, True]"
    by (simp add: eq0 eq1 eq4 f0 fl2 f4)
  have "refill_steps [True, False, False, False, True] = [0, 4]"
    by code_simp
  then show ?thesis
    using la2 by (simp add: fl eq0 eq1 eq4)
qed

lemma unnormalize_keeps_shape_N0: "unnormalize_keeps_shape N0"
  by (simp add: unnormalize_keeps_shape_def N0_def)

theorem select_action_refills_witness:
  "n_obs_steps (config (diffusion policy0)) = 2 \<and> horizon (config (diffusion policy0)) = 8
   \<and> n_action_steps (config (diffusion policy0)) = 4
   \<and> reset policy0 = Inr policy0
   \<and> step_keeps_shape L0 \<and> unnormalize_keeps_shape N0
   \<and> (\<exists>acts p5. select_actions L0 N0 policy0 [obs0 1, obs0 2, obs0 3, obs0 4, obs0 5]
          = Inr (acts, [True, False, False, False, True], p5))"
proof -
  let ?run = "select_actions L0 N0 policy0 [obs0 1, obs0 2, obs0 3, obs0 4, obs0 5]"
  have h1: "n_obs_steps (config (diffusion policy0)) = 2"
    and h2: "horizon (config (diffusion policy0)) = 8"
    and h3: "n_action_steps (config (diffusion policy0)) = 4"
    by code_simp+
  have h4: "reset policy0 = Inr policy0" by code_simp
  have "\<not> isl ?run" by code_simp
  then have r: "?run = Inr (fst (projr ?run), fst (snd (projr ?run)), snd (snd (projr ?run)))"
    by (cases ?run) auto
  from select_action_refills[OF h1 h2 h3 h4 step_keeps_shape_L0 unnormalize_keeps_shape_N0 r]
  have "fst (snd (projr ?run)) = [True, False, False, False, True]" by simp
  with r have "\<exists>acts p5. ?run = Inr (acts, [True, False, False, False, True], p5)"
    by metis
  with h1 h2 h3 h4 step_keeps_shape_L0 unnormalize_keeps_shape_N0 show ?thesis by blast
qed

text \<open>
  C8, as stated, fails: counted from zero, the calls that refill the queue are calls 0
  and 4, not 1 and 5 (there is no call 5 among five).
\<close>

theorem select_action_refills_counterexample:
  "map_sum id (\<lambda>(acts, flags, p). refill_steps flags)
     (select_actions L0 N0 policy0 [obs0 1, obs0 2, obs0 3, obs0 4, obs0 5]) = Inr [0, 4]
   \<and> map_sum id (\<lambda>(acts, flags, p). refill_steps flags)
     (select_actions L0 N0 policy0 [obs0 1, obs0 2, obs0 3, obs0 4, obs0 5]) \<noteq> Inr [1, 5]"
  by code_simp

subsection \<open>Unsupported names\<close>




















subsection \<open>Shape checks that pass\<close>

lemma all_ok_map:
  assumes "\<And>a. a \<in> set xs \<Longrightarrow> f a = Inr (h a)"
  shows "all_ok (map f xs) = Inr (map h xs)"
  using assms by (induction xs) simp_all

lemma all_ok_map2:
  assumes "length u = length v"
    and "\<And>a b. (a, b) \<in> set (zip u v) \<Longrightarrow> f a b = Inr (h a b)"
  shows "all_ok (map2 f u v) = Inr (map2 h u v)"
  using assms by (induction u v rule: list_induct2) simp_all

lemma ew_vec_same: "length u = length v \<Longrightarrow> ew_vec f u v = Inr (map2 f u v)"
  by (simp add: ew_vec_def broadcast_def all_ok_map2)

lemma ew_mat_same:
  assumes "has_shape2 B D a" "has_shape2 B D b"
  shows "ew_mat f a b = Inr (map2 (map2 f) a b)"
proof -
  have len: "length a = length b" using assms by (simp add: has_shape2_def)
  have "\<And>u v. (u, v) \<in> set (zip a b) \<Longrightarrow> ew_vec f u v = Inr (map2 f u v)"
  proof -
    fix u v assume "(u, v) \<in> set (zip a b)"
    then have "u \<in> set a" "v \<in> set b" by (auto dest: set_zip_leftD set_zip_rightD)
    with assms have "length u = length v" by (simp add: has_shape2_def)
    then show "ew_vec f u v = Inr (map2 f u v)" by (rule ew_vec_same)
  qed
  then show ?thesis
    by (simp add: ew_mat_def broadcast_def len all_ok_map2[OF len])
qed

lemma ew_mat_add: "has_shape2 B D a \<Longrightarrow> has_shape2 B D b \<Longrightarrow> ew_mat (+) a b = Inr (madd a b)"
  by (simp add: ew_mat_same madd_def vadd_def)

lemma ew_tok_same:
  assumes "has_shape3 T B D x" "has_shape3 T B D y"
  shows "ew_tok f x y = Inr (map2 (map2 (map2 f)) x y)"
proof -
  have len: "length x = length y" using assms by (simp add: has_shape3_def)
  have "\<And>a b. (a, b) \<in> set (zip x y) \<Longrightarrow> ew_mat f a b = Inr (map2 (map2 f) a b)"
  proof -
    fix a b assume "(a, b) \<in> set (zip x y)"
    then have "a \<in> set x" "b \<in> set y" by (auto dest: set_zip_leftD set_zip_rightD)
    with assms have "has_shape2 B D a" "has_shape2 B D b" by (simp_all add: has_shape3_def)
    then show "ew_mat f a b = Inr (map2 (map2 f) a b)" by (rule ew_mat_same)
  qed
  then show ?thesis
    by (simp add: ew_tok_def broadcast_def len all_ok_map2[OF len])
qed

lemma ew_tok_add:
  "has_shape3 T B D x \<Longrightarrow> has_shape3 T B D y \<Longrightarrow> ew_tok (+) x y = Inr (tadd x y)"
  by (simp add: ew_tok_same tadd_def madd_def vadd_def)

lemma ew_tok_row:
  assumes "has_shape3 T B D x" "has_shape2 B D m"
  shows "ew_tok f x [m] = Inr (map (\<lambda>xt. map2 (map2 f) xt m) x)"
proof -
  have row: "\<And>a. a \<in> set x \<Longrightarrow> ew_mat f a m = Inr (map2 (map2 f) a m)"
    using assms by (intro ew_mat_same[of B D]) (simp_all add: has_shape3_def)
  show ?thesis
  proof (cases "length x = 1")
    case True
    then obtain a where x: "x = [a]" by (cases x) auto
    with row show ?thesis by (simp add: ew_tok_def broadcast_def)
  next
    case False
    then show ?thesis
      by (simp add: ew_tok_def broadcast_def all_ok_map[of x, OF row])
  qed
qed

lemma ew_tok_mul_row:
  "has_shape3 T B D x \<Longrightarrow> has_shape2 B D m \<Longrightarrow> ew_tok (*) x [m] = Inr (bmul x m)"
  by (simp add: ew_tok_row bmul_def mmul_def vmul_def)

lemma ew_tok_add_row:
  "has_shape3 T B D x \<Longrightarrow> has_shape2 B D m \<Longrightarrow> ew_tok (+) x [m] = Inr (badd x m)"
  by (simp add: ew_tok_row badd_def madd_def vadd_def)

lemma Linear_vec_checked_fits:
  "Linear_in (length v) l \<Longrightarrow> Linear_vec_checked l v = Inr (Linear_vec l v)"
  by (simp add: Linear_vec_checked_def Linear_in_def)

lemma Linear_mat_checked_fits:
  assumes "Linear_in d l" "\<forall>v\<in>set m. length v = d"
  shows "Linear_mat_checked l m = Inr (Linear_mat l m)"
  unfolding Linear_mat_checked_def Linear_mat_def
  using assms by (intro all_ok_map) (simp add: Linear_vec_checked_fits)

lemma Linear_tok_checked_fits:
  assumes "Linear_in d l" "\<forall>m\<in>set x. \<forall>v\<in>set m. length v = d"
  shows "Linear_tok_checked l x = Inr (Linear_tok l x)"
  unfolding Linear_tok_checked_def Linear_tok_def
  using assms by (intro all_ok_map) (simp add: Linear_mat_checked_fits)

lemma ShiftScaleMod_forward_checked_fits:
  assumes x: "has_shape3 T B D x" and c: "has_shape2 B D c"
    and out: "Linear_out D (ss_scale m)" "Linear_out D (ss_shift m)"
    and inp: "Linear_in D (ss_scale m)" "Linear_in D (ss_shift m)"
  shows "ShiftScaleMod_forward_checked L m x c = Inr (ShiftScaleMod_forward L m x c)"
proof -
  let ?c = "map (map (silu L)) c"
  have rows: "\<forall>v\<in>set ?c. length v = D" and len: "length ?c = B"
    using c by (auto simp: has_shape2_def)
  have sc: "Linear_mat_checked (ss_scale m) ?c = Inr (Linear_mat (ss_scale m) ?c)"
    and sh: "Linear_mat_checked (ss_shift m) ?c = Inr (Linear_mat (ss_shift m) ?c)"
    using inp rows by (simp_all add: Linear_mat_checked_fits)
  have s2: "has_shape2 B D (Linear_mat (ss_scale m) ?c)"
    and h2: "has_shape2 B D (Linear_mat (ss_shift m) ?c)"
    using out len by (simp_all add: has_shape2_Linear_mat)
  have mul: "ew_tok (*) x [Linear_mat (ss_scale m) ?c] = Inr (bmul x (Linear_mat (ss_scale m) ?c))"
    using x s2 by (rule ew_tok_mul_row)
  have "has_shape3 T B D (bmul x (Linear_mat (ss_scale m) ?c))"
    using x s2 by (rule has_shape3_bmul)
  then have add: "ew_tok (+) (bmul x (Linear_mat (ss_scale m) ?c)) [Linear_mat (ss_shift m) ?c]
      = Inr (badd (bmul x (Linear_mat (ss_scale m) ?c)) (Linear_mat (ss_shift m) ?c))"
    using h2 by (rule ew_tok_add_row)
  show ?thesis
    by (simp add: ShiftScaleMod_forward_checked_def ShiftScaleMod_forward_def Let_def sc sh mul add)
qed

lemma ZeroScaleMod_forward_checked_fits:
  assumes x: "has_shape3 T B D x" and c: "has_shape2 B D c"
    and out: "Linear_out D (zs_scale m)" and inp: "Linear_in D (zs_scale m)"
  shows "ZeroScaleMod_forward_checked L m x c = Inr (ZeroScaleMod_forward L m x c)"
proof -
  let ?c = "map (map (silu L)) c"
  have rows: "\<forall>v\<in>set ?c. length v = D" and len: "length ?c = B"
    using c by (auto simp: has_shape2_def)
  have sc: "Linear_mat_checked (zs_scale m) ?c = Inr (Linear_mat (zs_scale m) ?c)"
    using inp rows by (simp add: Linear_mat_checked_fits)
  have s2: "has_shape2 B D (Linear_mat (zs_scale m) ?c)"
    using out len by (simp add: has_shape2_Linear_mat)
  have mul: "ew_tok (*) x [Linear_mat (zs_scale m) ?c] = Inr (bmul x (Linear_mat (zs_scale m) ?c))"
    using x s2 by (rule ew_tok_mul_row)
  show ?thesis
    by (simp add: ZeroScaleMod_forward_checked_def ZeroScaleMod_forward_def Let_def sc mul)
qed

lemma Linear_out_zero_Linear: "Linear_out D (zero_Linear D)"
  by (simp add: Linear_out_def zero_Linear_def)

lemma Linear_in_zero_Linear: "Linear_in D (zero_Linear D)"
  by (simp add: Linear_in_def zero_Linear_def list_all_iff)

lemma has_shape3_zeros: "has_shape3 T B D (replicate T (replicate B (replicate D 0)))"
  by (simp add: has_shape3_def has_shape2_def)

text \<open>
  Every check of a layer that fits passes on inputs of the model's shapes; with the two
  zero modulations the layer returns its input.
\<close>

lemma DiTDecoderLayer_forward_checked_identity:
  assumes zm: "zero_modulated D l" and wf: "wf_decoder_layer D l"
    and fits: "fits_decoder_layer D F l"
    and act: "activation_keeps_length L (dl_activation l)"
    and x: "has_shape3 T B D x" and t: "has_shape2 B D t"
    and cond: "has_shape3 Tc B D cond" "0 < Tc"
    and lib: "shape_preserving L T B D"
  shows "DiTDecoderLayer_forward_checked L False l x t cond = Inr x"
proof -
  define c where "c = madd (mean0 cond) t"
  have m0: "has_shape2 B D (mean0 cond)" by (rule has_shape2_mean0[OF cond])
  have c: "has_shape2 B D c"
    unfolding c_def using m0 t by (rule has_shape2_madd)
  have c_ok: "ew_mat (+) (mean0 cond) t = Inr c"
    unfolding c_def using m0 t by (rule ew_mat_add)
  have ln: "\<And>n y. has_shape3 T B D y \<Longrightarrow> has_shape3 T B D (layer_norm L n y)"
    and mha: "\<And>a q. has_shape3 T B D q \<Longrightarrow> has_shape3 T B D (mha_forward L a False q q q)"
    using lib by (auto simp: shape_preserving_def)
  have zs1: "attn_mod2 l = \<lparr>zs_scale = zero_Linear D\<rparr>" and zs2: "mlp_mod2 l = \<lparr>zs_scale = zero_Linear D\<rparr>"
    using zm by (simp_all add: zero_modulated_def)
  define a1 where "a1 = ShiftScaleMod_forward L (attn_mod1 l) (layer_norm L (dl_norm1 l) x) c"
  define a2 where "a2 = mha_forward L (dl_self_attn l) False a1 a1 a1"
  have out: "Linear_out D (ss_scale (attn_mod1 l))" "Linear_out D (ss_shift (attn_mod1 l))"
      "Linear_out D (ss_scale (mlp_mod1 l))" "Linear_out D (ss_shift (mlp_mod1 l))"
      "Linear_out D (dl_linear2 l)"
    using wf by (simp_all add: wf_decoder_layer_def)
  have inp: "Linear_in D (ss_scale (attn_mod1 l))" "Linear_in D (ss_shift (attn_mod1 l))"
      "Linear_in D (ss_scale (mlp_mod1 l))" "Linear_in D (ss_shift (mlp_mod1 l))"
      "Linear_in D (dl_linear1 l)" "Linear_out F (dl_linear1 l)" "Linear_in F (dl_linear2 l)"
    using fits by (simp_all add: fits_decoder_layer_def)
  have a1_ok: "ShiftScaleMod_forward_checked L (attn_mod1 l) (layer_norm L (dl_norm1 l) x) c = Inr a1"
    unfolding a1_def
    by (rule ShiftScaleMod_forward_checked_fits[OF ln[OF x] c out(1,2) inp(1,2)])
  have a1: "has_shape3 T B D a1"
    unfolding a1_def using wf
    by (intro has_shape3_ShiftScaleMod ln x c) (auto simp: wf_decoder_layer_def)
  then have a2: "has_shape3 T B D a2" unfolding a2_def by (rule mha)
  have z1: "ZeroScaleMod_forward L (attn_mod2 l) a2 c = replicate T (replicate B (replicate D 0))"
    unfolding zs1 using a2 c by (intro ZeroScaleMod_forward_zero) (simp_all add: has_shape2_def)
  have z1_ok: "ZeroScaleMod_forward_checked L (attn_mod2 l) a2 c
      = Inr (replicate T (replicate B (replicate D 0)))"
    unfolding z1[symmetric] zs1
    by (rule ZeroScaleMod_forward_checked_fits[OF a2 c])
       (simp_all add: Linear_out_zero_Linear Linear_in_zero_Linear)
  have r1: "ew_tok (+) (replicate T (replicate B (replicate D 0))) x = Inr x"
    using ew_tok_add[OF has_shape3_zeros x] x by (simp add: tadd_zero_left)
  define m1 where "m1 = ShiftScaleMod_forward L (mlp_mod1 l) (layer_norm L (dl_norm2 l) x) c"
  have m1_ok: "ShiftScaleMod_forward_checked L (mlp_mod1 l) (layer_norm L (dl_norm2 l) x) c = Inr m1"
    unfolding m1_def
    by (rule ShiftScaleMod_forward_checked_fits[OF ln[OF x] c out(3,4) inp(3,4)])
  have m1: "has_shape3 T B D m1"
    unfolding m1_def using wf
    by (intro has_shape3_ShiftScaleMod ln x c) (auto simp: wf_decoder_layer_def)
  define h where "h = Linear_tok (dl_linear1 l) m1"
  have m1_rows: "\<forall>m\<in>set m1. \<forall>v\<in>set m. length v = D" "length m1 = T" "\<forall>m\<in>set m1. length m = B"
    using m1 by (auto simp: has_shape3_def has_shape2_def)
  have h_ok: "Linear_tok_checked (dl_linear1 l) m1 = Inr h"
    unfolding h_def by (rule Linear_tok_checked_fits[OF inp(5) m1_rows(1)])
  have h: "has_shape3 T B F h"
    unfolding h_def by (rule has_shape3_Linear_tok[OF inp(6) m1_rows(2,3)])
  define k where "k = map (map (activation_forward L (dl_activation l))) h"
  have k: "\<forall>m\<in>set k. \<forall>v\<in>set m. length v = F" "length k = T" "\<forall>m\<in>set k. length m = B"
    using h act by (auto simp: k_def has_shape3_def has_shape2_def activation_keeps_length_def)
  define m2 where "m2 = Linear_tok (dl_linear2 l) k"
  have m2_ok: "Linear_tok_checked (dl_linear2 l) k = Inr m2"
    unfolding m2_def by (rule Linear_tok_checked_fits[OF inp(7) k(1)])
  have m2: "has_shape3 T B D m2"
    unfolding m2_def by (rule has_shape3_Linear_tok[OF out(5) k(2,3)])
  have z2: "ZeroScaleMod_forward L (mlp_mod2 l) m2 c = replicate T (replicate B (replicate D 0))"
    unfolding zs2 using m2 c by (intro ZeroScaleMod_forward_zero) (simp_all add: has_shape2_def)
  have z2_ok: "ZeroScaleMod_forward_checked L (mlp_mod2 l) m2 c
      = Inr (replicate T (replicate B (replicate D 0)))"
    unfolding z2[symmetric] zs2
    by (rule ZeroScaleMod_forward_checked_fits[OF m2 c])
       (simp_all add: Linear_out_zero_Linear Linear_in_zero_Linear)
  have r2: "ew_tok (+) x (replicate T (replicate B (replicate D 0))) = Inr x"
    using ew_tok_add[OF x has_shape3_zeros] x by (simp add: tadd_zero_right)
  show ?thesis
    unfolding DiTDecoderLayer_forward_checked_def Let_def
    by (simp add: c_ok a1_ok a2_def[symmetric] Dropout_def z1_ok r1 m1_ok h_ok
          k_def[symmetric] m2_ok z2_ok r2)
qed

lemma DiTDecoder_forward_checked_identity:
  assumes "\<forall>l\<in>set layers. zero_modulated D l \<and> wf_decoder_layer D l
             \<and> fits_decoder_layer D F l \<and> activation_keeps_length L (dl_activation l)"
    and "has_shape3 T B D x" "has_shape2 B D t" "has_shape3 Tc B D cond" "0 < Tc"
    and "shape_preserving L T B D"
  shows "DiTDecoder_forward_checked L False layers x t cond = Inr x"
  using assms(1)
proof (induction layers)
  case Nil
  then show ?case by simp
next
  case (Cons l layers)
  then have "DiTDecoderLayer_forward_checked L False l x t cond = Inr x"
    by (intro DiTDecoderLayer_forward_checked_identity[where F = F, OF _ _ _ _ assms(2-6)])
       simp_all
  with Cons show ?case by simp
qed

subsection \<open>Input features after construction\<close>

lemma rows_draw_mat: "list_all (\<lambda>row. length row = c) (fst (draw_mat L r c g))"
  by (simp add: draw_mat_def list_all_iff)

lemma rows_xavier_uniform:
  assumes "list_all (\<lambda>row. length row = c) w"
  shows "list_all (\<lambda>row. length row = c) (fst (xavier_uniform L w g))"
proof (cases w)
  case Nil
  then show ?thesis by (simp add: xavier_uniform_def draw_mat_def)
next
  case (Cons r rs)
  with assms have "ncols w = c" by (simp add: ncols_def)
  then show ?thesis by (simp add: xavier_uniform_def rows_draw_mat)
qed

lemma Linear_in_new_Linear: "Linear_in i (fst (new_Linear L i d g))"
  by (simp add: Linear_in_def new_Linear_def split_def Let_def rows_draw_mat)

lemma Linear_in_xavier: "Linear_in c l \<Longrightarrow> Linear_in c (fst (xavier_Linear L l g))"
  by (simp add: Linear_in_def xavier_Linear_def split_def Let_def rows_xavier_uniform)

lemma new_ShiftScaleMod_in:
  "Linear_in d (ss_scale (fst (new_ShiftScaleMod L d g)))"
  "Linear_in d (ss_shift (fst (new_ShiftScaleMod L d g)))"
  by (simp_all add: new_ShiftScaleMod_def split_def Let_def Linear_in_new_Linear)

lemma ShiftScaleMod_reset_in:
  assumes "Linear_in D sc" "Linear_in D sh"
  shows "Linear_in D (ss_scale (fst (ShiftScaleMod_reset_parameters L
            \<lparr>ss_scale = fst (xavier_Linear L sc g1), ss_shift = fst (xavier_Linear L sh g2)\<rparr> g3)))"
    and "Linear_in D (ss_shift (fst (ShiftScaleMod_reset_parameters L
            \<lparr>ss_scale = fst (xavier_Linear L sc g1), ss_shift = fst (xavier_Linear L sh g2)\<rparr> g3)))"
  using Linear_in_xavier[OF assms(1), of L g1] Linear_in_xavier[OF assms(2), of L g2]
  by (simp_all add: ShiftScaleMod_reset_parameters_def split_def Let_def Linear_in_def
        rows_xavier_uniform)

lemma DiTDecoderLayer_init_fits:
  assumes "DiTDecoderLayer_init L cfg g = Inr (l, g')"
    and "get_activation_fn (feedforward_activation cfg) = Inr a"
  shows "fits_decoder_layer (dim_model cfg) (dim_feedforward cfg) l \<and> dl_activation l = a"
proof -
  from assms have l: "l = fst (projr (DiTDecoderLayer_init L cfg g))" by simp
  show ?thesis
    unfolding l fits_decoder_layer_def
    by (simp add: DiTDecoderLayer_init_def assms(2) split_def Let_def new_ShiftScaleMod_in
          Linear_in_new_Linear Linear_out_new_Linear)
qed

lemma DiTDecoderLayer_reset_parameters_fits:
  assumes "fits_decoder_layer D F l"
  shows "fits_decoder_layer D F (fst (DiTDecoderLayer_reset_parameters L l g))"
    and "dl_activation (fst (DiTDecoderLayer_reset_parameters L l g)) = dl_activation l"
  using assms
  unfolding fits_decoder_layer_def
  by (simp_all add: DiTDecoderLayer_reset_parameters_def split_def Let_def
        ShiftScaleMod_reset_in Linear_in_xavier Linear_out_xavier)

lemma DiTDecoder_init_fits:
  assumes "DiTDecoder_init L cfg g = Inr (layers, g')"
    and act: "get_activation_fn (feedforward_activation cfg) = Inr a"
  shows "\<forall>l\<in>set layers. fits_decoder_layer (dim_model cfg) (dim_feedforward cfg) l
           \<and> dl_activation l = a"
proof -
  from assms obtain raw g1 where
    raw: "init_layers (DiTDecoderLayer_init L cfg) (n_encoder_layers cfg) g = Inr (raw, g1)"
    and layers: "layers = fst (reset_layers (DiTDecoderLayer_reset_parameters L) raw g1)"
    by (auto simp: DiTDecoder_init_def bind_err_def split: sum.splits prod.splits)
  have "\<forall>l\<in>set raw. fits_decoder_layer (dim_model cfg) (dim_feedforward cfg) l
          \<and> dl_activation l = a"
    using raw by (rule init_layers_all[rotated]) (rule DiTDecoderLayer_init_fits[OF _ act])
  then show ?thesis
    unfolding layers
    by (rule reset_layers_all[rotated]) (auto simp: DiTDecoderLayer_reset_parameters_fits)
qed

text \<open>
  C6, as amended. In every layer of a decoder stack as \<^verbatim>\<open>DiTDecoder.__init__\<close> returns
  it, the weight and the bias of \<open>attn_mod2\<close> and of \<open>mlp_mod2\<close> are zero, so each of the
  two modulations returns the zero tensor. When the configured activation keeps the
  number of features, as \<^verbatim>\<open>"relu"\<close> and \<^verbatim>\<open>"gelu"\<close> do, every shape check of the layer
  passes and in eval mode the layer, and the whole stack, return their input tokens
  unchanged, for every input \<open>x\<close> of shape \<open>(T, B, D)\<close>, time embedding of shape \<open>(B, D)\<close>
  and non-empty conditioning cache of shape \<open>(T\<^sub>c, B, D)\<close>, \<open>D\<close> the model dimension. The
  arithmetic is that of the real numbers: zero times any value is zero.
\<close>

theorem fresh_decoder_layer_identity:
  assumes init: "DiTDecoder_init L cfg g = Inr (layers, g')"
    and l: "l \<in> set layers"
    and D: "D = dim_model cfg"
    and act: "get_activation_fn (feedforward_activation cfg) = Inr a"
    and keeps: "activation_keeps_length L a"
    and x: "has_shape3 T B D x" and t: "has_shape2 B D t"
    and cond: "has_shape3 Tc B D cond" "0 < Tc"
    and lib: "shape_preserving L T B D"
  shows "weight (zs_scale (attn_mod2 l)) = replicate D (replicate D 0)
       \<and> bias (zs_scale (attn_mod2 l)) = replicate D 0
       \<and> weight (zs_scale (mlp_mod2 l)) = replicate D (replicate D 0)
       \<and> bias (zs_scale (mlp_mod2 l)) = replicate D 0
       \<and> ZeroScaleMod_forward_checked L (attn_mod2 l) x t
           = Inr (replicate T (replicate B (replicate D 0)))
       \<and> ZeroScaleMod_forward_checked L (mlp_mod2 l) x t
           = Inr (replicate T (replicate B (replicate D 0)))
       \<and> DiTDecoderLayer_forward_checked L False l x t cond = Inr x
       \<and> DiTDecoder_forward_checked L False layers x t cond = Inr x"
proof -
  have zw: "\<forall>l\<in>set layers. zero_modulated D l \<and> wf_decoder_layer D l"
    unfolding D using init by (rule DiTDecoder_init_layers)
  have ft: "\<forall>l\<in>set layers. fits_decoder_layer D (dim_feedforward cfg) l \<and> dl_activation l = a"
    unfolding D using init act by (rule DiTDecoder_init_fits)
  from zw ft keeps
  have all: "\<forall>l\<in>set layers. zero_modulated D l \<and> wf_decoder_layer D l
      \<and> fits_decoder_layer D (dim_feedforward cfg) l
      \<and> activation_keeps_length L (dl_activation l)"
    by simp
  with l have zm: "zero_modulated D l" and wf: "wf_decoder_layer D l"
    and fits: "fits_decoder_layer D (dim_feedforward cfg) l"
    and kl: "activation_keeps_length L (dl_activation l)" by auto
  have lent: "length t = B" using t by (simp add: has_shape2_def)
  have layer: "DiTDecoderLayer_forward_checked L False l x t cond = Inr x"
    using zm wf fits kl x t cond lib by (rule DiTDecoderLayer_forward_checked_identity)
  have stack: "DiTDecoder_forward_checked L False layers x t cond = Inr x"
    using all x t cond lib by (rule DiTDecoder_forward_checked_identity)
  have zs: "attn_mod2 l = \<lparr>zs_scale = zero_Linear D\<rparr>" "mlp_mod2 l = \<lparr>zs_scale = zero_Linear D\<rparr>"
    using zm by (simp_all add: zero_modulated_def)
  have "ZeroScaleMod_forward_checked L \<lparr>zs_scale = zero_Linear D\<rparr> x t
      = Inr (ZeroScaleMod_forward L \<lparr>zs_scale = zero_Linear D\<rparr> x t)"
    by (rule ZeroScaleMod_forward_checked_fits[OF x t])
       (simp_all add: Linear_out_zero_Linear Linear_in_zero_Linear)
  then have zero: "ZeroScaleMod_forward_checked L \<lparr>zs_scale = zero_Linear D\<rparr> x t
      = Inr (replicate T (replicate B (replicate D 0)))"
    using x lent by (simp add: ZeroScaleMod_forward_zero)
  show ?thesis
    using layer stack zero by (simp add: zs zero_Linear_def)
qed

lemma activation_keeps_length_L0: "activation_keeps_length L0 a"
  by (simp add: activation_keeps_length_def L0_def)

theorem fresh_decoder_layer_identity_witness:
  "get_activation_fn (feedforward_activation cfg0) = Inr GELU_tanh
   \<and> activation_keeps_length L0 GELU_tanh
   \<and> has_shape3 2 1 1 [[[3]], [[4]]] \<and> has_shape2 1 1 [[5]]
   \<and> has_shape3 3 1 1 [[[6]], [[8]], [[10]]] \<and> shape_preserving L0 2 1 1
   \<and> (\<exists>layers g'. DiTDecoder_init L0 cfg0 0 = Inr (layers, g') \<and> length layers = 1
     \<and> weight (zs_scale (attn_mod2 (hd layers))) = [[0]]
     \<and> bias (zs_scale (mlp_mod2 (hd layers))) = [0]
     \<and> DiTDecoderLayer_forward_checked L0 False (hd layers) [[[3]], [[4]]] [[5]]
           [[[6]], [[8]], [[10]]]
         = Inr [[[3]], [[4]]])"
proof -
  have act: "get_activation_fn (feedforward_activation cfg0) = Inr GELU_tanh"
    by (simp add: cfg0_def get_activation_fn_def)
  from DiTDecoder_init_Inr[OF this, of L0 0] obtain layers g' where
    init: "DiTDecoder_init L0 cfg0 0 = Inr (layers, g')" and len: "length layers = 1"
    by (auto simp: cfg0_def)
  then have l: "hd layers \<in> set layers" by (cases layers) auto
  have D: "1 = dim_model cfg0" by (simp add: cfg0_def)
  have x: "has_shape3 2 1 1 [[[3]], [[4]]]" and t: "has_shape2 1 1 [[5]]"
    and c: "has_shape3 3 1 1 [[[6]], [[8]], [[10]]]" "(0::nat) < 3"
    by (simp_all add: has_shape3_def has_shape2_def)
  from fresh_decoder_layer_identity[OF init l D act activation_keeps_length_L0 x t c
      shape_preserving_L0] init len
  have "\<exists>layers g'. DiTDecoder_init L0 cfg0 0 = Inr (layers, g') \<and> length layers = 1
     \<and> weight (zs_scale (attn_mod2 (hd layers))) = [[0]]
     \<and> bias (zs_scale (mlp_mod2 (hd layers))) = [0]
     \<and> DiTDecoderLayer_forward_checked L0 False (hd layers) [[[3]], [[4]]] [[5]]
           [[[6]], [[8]], [[10]]]
         = Inr [[[3]], [[4]]]"
    by simp
  with act activation_keeps_length_L0 x t c(1) shape_preserving_L0 show ?thesis by blast
qed

text \<open>
  C6, as stated, fails for the activation \<^verbatim>\<open>"glu"\<close>, which halves the features between
  the two linear layers of the feed-forward block: the second one raises on every
  input, so a freshly constructed layer returns nothing. Without the shape check the
  error goes unseen.
\<close>

theorem fresh_decoder_layer_glu_counterexample:
  "get_activation_fn (feedforward_activation cfg_glu) = Inr F_glu
   \<and> activation_forward L_glu F_glu [1, 2, 3, 4] = [3, 8]
   \<and> has_shape3 2 1 (dim_model cfg_glu) [[[3]], [[4]]] \<and> has_shape2 1 (dim_model cfg_glu) [[5]]
   \<and> has_shape3 3 1 (dim_model cfg_glu) [[[6]], [[8]], [[10]]]
   \<and> (case DiTDecoder_init L_glu cfg_glu 0 of
        Inl e \<Rightarrow> False
      | Inr (layers, g) \<Rightarrow>
          length layers = 1
          \<and> DiTDecoderLayer_forward_checked L_glu False (hd layers) [[[3]], [[4]]] [[5]]
                [[[6]], [[8]], [[10]]]
              = Inl (RuntimeError ''mat1 and mat2 shapes cannot be multiplied'')
          \<and> DiTDecoder_forward_checked L_glu False layers [[[3]], [[4]]] [[5]]
                [[[6]], [[8]], [[10]]]
              = Inl (RuntimeError ''mat1 and mat2 shapes cannot be multiplied'')
          \<and> DiTDecoderLayer_forward L_glu False (hd layers) [[[3]], [[4]]] [[5]]
                [[[6]], [[8]], [[10]]]
              = [[[3]], [[4]]])"
  by code_simp

end
